theory Spec2Isabelle
  imports Main
begin

section \<open>Data model (the Project schema)\<close>

text \<open>
  Dates are milliseconds since the epoch (\<open>int\<close>), identifiers and status values are
  strings, as in the JavaScript source. A field that may be \<open>undefined\<close> is an
  \<open>option\<close>. Only the fields that the workflow operations read or write are kept:
  the client's contact data and the Drive folder ids other than \<open>driveFolderId\<close>
  are never touched by them, and the \<open>data\<close> field of a timeline entry is always the
  empty object. A due date is kept as the string the request carried.
\<close>

record version_entry =
  version :: int
  filename :: string
  driveFileId :: string
  driveFileUrl :: string
  uploadDate :: int
  version_notes :: string
  version_status :: string

record timeline_entry =
  action :: string
  user :: "string option"
  timestamp :: int
  entry_notes :: string

record admin_comment =
  comment :: "string option"
  comment_date :: int
  comment_type :: string

record feedback_entry =
  message :: string
  feedback_timestamp :: int
  feedback_version :: int
  feedback_status :: string
  rating :: "int option"
  satisfied :: "bool option"
  reEditRequested :: bool
  reEditComments :: "string option"

record project =
  proj_id :: string
  publicId :: string
  status :: string
  progress :: int
  assignedEditor :: "string option"
  assignedDate :: "int option"
  editorDeadlineHours :: int
  editorDeadline :: "int option"
  isEditorDeadlineExceeded :: bool
  dueDate :: "string option"
  adminNotes :: "string option"
  driveFolderId :: string
  editedVersions :: "version_entry list"
  timeline :: "timeline_entry list"
  adminComments :: "admin_comment list"
  clientFeedback :: "feedback_entry list"

record user_doc =
  user_id :: string
  user_name :: string
  user_email :: string
  user_role :: string

section \<open>Persistence\<close>

text \<open>
  The projects collection is a list of documents. \<open>save\<close> writes the in-memory
  document over the stored document with the same \<open>_id\<close>; the three queries are the
  ones the controllers issue.
\<close>

type_synonym collection = "project list"

definition save :: "project \<Rightarrow> collection \<Rightarrow> collection" where
  "save p db = map (\<lambda>q. if proj_id q = proj_id p then p else q) db"

definition findById :: "string \<Rightarrow> collection \<Rightarrow> project option" where
  "findById pid db = find (\<lambda>p. proj_id p = pid) db"

definition findOne_assigned :: "string \<Rightarrow> string \<Rightarrow> collection \<Rightarrow> project option" where
  "findOne_assigned pid eid db = find (\<lambda>p. proj_id p = pid \<and> assignedEditor p = Some eid) db"

definition findOne_publicId :: "string \<Rightarrow> collection \<Rightarrow> project option" where
  "findOne_publicId pub db = find (\<lambda>p. publicId p = pub) db"

definition User_findById :: "string \<Rightarrow> user_doc list \<Rightarrow> user_doc option" where
  "User_findById uid users = find (\<lambda>u. user_id u = uid) users"

text \<open>
  An \<open>ObjectId\<close> is held as its \<open>toString()\<close>, the lower-case hexadecimal string. A
  24-digit hexadecimal string of a request body is cast to an \<open>ObjectId\<close> whatever the
  case of its digits, when it is used in a query or assigned to a reference
  (\<open>ObjectId_of\<close>). The editor operations query with the id of the route and the id of
  the authenticated user; their request records hold both as stored.
\<close>

definition lower_hex :: "char \<Rightarrow> char" where
  "lower_hex c = (case map_of (zip ''ABCDEF'' ''abcdef'') c of None \<Rightarrow> c | Some l \<Rightarrow> l)"

definition ObjectId_of :: "string \<Rightarrow> string" where
  "ObjectId_of s = map lower_hex s"

section \<open>JavaScript helpers\<close>

text \<open>\<open>a || b\<close> on an optional string: \<open>undefined\<close> and the empty string are falsy.\<close>

definition truthy_str :: "string option \<Rightarrow> bool" where
  "truthy_str x = (case x of None \<Rightarrow> False | Some s \<Rightarrow> s \<noteq> [])"

definition or_str :: "string option \<Rightarrow> string option \<Rightarrow> string option" where
  "or_str x y = (if truthy_str x then x else y)"

text \<open>\<open>a || d\<close> with a string default, and with a number default (\<open>0\<close> is falsy).\<close>

definition str_or :: "string option \<Rightarrow> string \<Rightarrow> string" where
  "str_or x d = (case x of None \<Rightarrow> d | Some s \<Rightarrow> if s = [] then d else s)"

definition num_or :: "int option \<Rightarrow> int \<Rightarrow> int" where
  "num_or x d = (case x of None \<Rightarrow> d | Some n \<Rightarrow> if n = 0 then d else n)"

text \<open>
  A value of a request body, as far as a condition can tell values apart. Bodies are
  parsed as JSON or as URL-encoded forms, so a flag may arrive as a boolean, a number or
  a string. \<open>JNum\<close> is an integral number, \<open>JFraction\<close> any other number, \<open>JObject\<close>
  an object or array. \<open>truthy\<close> is the test that \<open>if (v)\<close>, \<open>v && \<dots>\<close> and
  \<open>v || \<dots>\<close> apply.
\<close>

datatype jsval = JUndefined | JNull | JBool bool | JNum int | JFraction | JStr string | JObject

fun truthy :: "jsval \<Rightarrow> bool" where
  "truthy JUndefined = False"
| "truthy JNull = False"
| "truthy (JBool b) = b"
| "truthy (JNum n) = (n \<noteq> 0)"
| "truthy JFraction = True"
| "truthy (JStr s) = (s \<noteq> [])"
| "truthy JObject = True"

text \<open>
  The validator \<open>isBoolean()\<close> reads the value as a string and accepts \<open>true\<close>, \<open>false\<close>,
  \<open>1\<close> and \<open>0\<close>; it does not convert the value. \<open>optional()\<close> skips the check when
  the field is absent.
\<close>

fun isBoolean :: "jsval \<Rightarrow> bool" where
  "isBoolean (JBool b) = True"
| "isBoolean (JNum n) = (n = 0 \<or> n = 1)"
| "isBoolean (JStr s) = (s \<in> set [''true'', ''false'', ''1'', ''0''])"
| "isBoolean v = False"

definition optional_isBoolean :: "jsval \<Rightarrow> bool" where
  "optional_isBoolean v = (v = JUndefined \<or> isBoolean v)"

text \<open>
  The schema type \<open>Boolean\<close> casts a value when the document is validated for a save:
  \<open>None\<close> is the cast error that makes the save throw, \<open>Some None\<close> an empty field.
\<close>

fun castBoolean :: "jsval \<Rightarrow> bool option option" where
  "castBoolean JUndefined = Some None"
| "castBoolean JNull = Some None"
| "castBoolean (JBool b) = Some (Some b)"
| "castBoolean (JNum n) =
     (if n = 1 then Some (Some True) else if n = 0 then Some (Some False) else None)"
| "castBoolean (JStr s) =
     (if s \<in> set [''true'', ''1'', ''yes''] then Some (Some True)
      else if s \<in> set [''false'', ''0'', ''no''] then Some (Some False)
      else None)"
| "castBoolean JFraction = None"
| "castBoolean JObject = None"

text \<open>
  A number inside a template literal is rendered in decimal (\<open>Number.prototype.toString\<close>).
  The digits are produced from the least significant one, in front of those already
  written.
\<close>

definition digit_char :: "nat \<Rightarrow> char" where
  "digit_char d = ''0123456789'' ! d"

fun decimal_digits :: "nat \<Rightarrow> string \<Rightarrow> string" where
  "decimal_digits n written =
     (if n < 10 then digit_char n # written
      else decimal_digits (n div 10) (digit_char (n mod 10) # written))"

definition number_toString :: "int \<Rightarrow> string" where
  "number_toString i =
     (if 0 \<le> i then decimal_digits (nat i) [] else CHR ''-'' # decimal_digits (nat (- i)) [])"

section \<open>Methods of the Project model\<close>

text \<open>
  \<open>addTimelineEntry\<close> pushes one entry (the timestamp is the schema default, the
  clock at the push; an \<open>undefined\<close> note takes the parameter default \<open>''\<close>) and saves
  the document.
\<close>

definition addTimelineEntry ::
  "int \<Rightarrow> string \<Rightarrow> string option \<Rightarrow> string option \<Rightarrow> project \<times> collection \<Rightarrow> project \<times> collection" where
  "addTimelineEntry now act usr nts s =
     (let p = (fst s)\<lparr>timeline := timeline (fst s) @
                [\<lparr>action = act, user = usr, timestamp = now,
                  entry_notes = (case nts of None \<Rightarrow> [] | Some n \<Rightarrow> n)\<rparr>]\<rparr>
      in (p, save p (snd s)))"

text \<open>
  \<open>getLatestVersion\<close>: \<open>null\<close> on an empty array, otherwise \<open>reduce\<close> without an
  initial value, which starts from the first element and replaces the running entry only
  by one with a strictly greater number.
\<close>

definition getLatestVersion :: "project \<Rightarrow> version_entry option" where
  "getLatestVersion p =
     (case editedVersions p of
        [] \<Rightarrow> None
      | v # vs \<Rightarrow> Some (foldl (\<lambda>latest current.
                     if version current > version latest then current else latest) v vs))"


section \<open>Recording the writes\<close>

text \<open>
  A request may call \<open>save()\<close> more than once. To tell which document each call stores,
  the logged form of an operation threads, beside the collection, the list of the
  documents given to \<open>save()\<close>, in the order of the calls. \<open>addTimelineEntry_logged\<close>
  is \<open>addTimelineEntry\<close> with its one \<open>save()\<close> recorded.
\<close>

type_synonym store = "collection \<times> project list"

definition save_logged :: "project \<Rightarrow> store \<Rightarrow> store" where
  "save_logged p st = (save p (fst st), snd st @ [p])"

definition addTimelineEntry_logged ::
  "int \<Rightarrow> string \<Rightarrow> string option \<Rightarrow> string option \<Rightarrow> project \<times> store \<Rightarrow> project \<times> store" where
  "addTimelineEntry_logged now act usr nts s =
     (let p = (fst s)\<lparr>timeline := timeline (fst s) @
                [\<lparr>action = act, user = usr, timestamp = now,
                  entry_notes = (case nts of None \<Rightarrow> [] | Some n \<Rightarrow> n)\<rparr>]\<rparr>
      in (p, save_logged p (snd s)))"

section \<open>Requests and responses\<close>

text \<open>
  A controller answers with an HTTP error (status code and message) or with the project
  it has written. Each request record holds the fields the controller reads from the
  body, the route parameters and the authenticated user. The route's validation chain is
  run by a library; its membership checks on \<open>status\<close> and \<open>action\<close> and its
  \<open>isBoolean()\<close> checks are modelled, and the outcome of its remaining checks (identifier
  syntax, text lengths, number ranges) is the field \<open>*_other_fields_valid\<close> of the
  request. The flags \<open>satisfied\<close>, \<open>reEditRequested\<close> and \<open>isReassignment\<close> are body
  values as they arrive (\<open>jsval\<close>): the first two are validated but not converted, the
  third has no validation rule. A numeric field holds the number that the validated value
  denotes, a text field its string. Sending mail and granting Drive access are wrapped in
  \<open>try\<close>/\<open>catch\<close> by the controllers and write nothing to the project, so they do not
  appear; a failing database is outside the model.
\<close>

datatype http_error = HttpError nat string

record status_update_request =
  su_other_fields_valid :: bool
  su_projectId :: string
  su_editorId :: string
  su_status :: string
  su_progress :: "int option"
  su_notes :: "string option"

record upload_request =
  up_file :: "string option"
  up_projectId :: string
  up_editorId :: string
  up_notes :: "string option"

record drive_file =
  file_id :: string
  webViewLink :: string

record assign_request =
  as_other_fields_valid :: bool
  as_adminId :: string
  as_projectId :: string
  as_editorId :: string
  as_notes :: "string option"
  as_dueDate :: "string option"
  as_comments :: "string option"
  as_isReassignment :: jsval
  as_deadlineHours :: "int option"

record review_request =
  rv_other_fields_valid :: bool
  rv_adminId :: string
  rv_projectId :: string
  rv_action :: string
  rv_notes :: "string option"

record feedback_request =
  fb_other_fields_valid :: bool
  fb_publicId :: string
  fb_feedback :: string
  fb_status :: string
  fb_version :: "int option"
  fb_rating :: "int option"
  fb_satisfied :: jsval
  fb_reEditRequested :: jsval
  fb_reEditComments :: "string option"

definition updateStatusValidation :: "status_update_request \<Rightarrow> bool" where
  "updateStatusValidation r =
     (su_status r \<in> set [''assigned'', ''in_progress'', ''completed'', ''revision_in_progress'']
      \<and> su_other_fields_valid r)"

definition assignProjectValidation :: "assign_request \<Rightarrow> bool" where
  "assignProjectValidation r = as_other_fields_valid r"

definition reviewProjectValidation :: "review_request \<Rightarrow> bool" where
  "reviewProjectValidation r =
     (rv_action r \<in> set [''approve'', ''request_revision'', ''reassign'']
      \<and> rv_other_fields_valid r)"

definition feedbackValidation :: "feedback_request \<Rightarrow> bool" where
  "feedbackValidation r =
     (fb_status r \<in> set [''approved'', ''revision_requested''] \<and>
      optional_isBoolean (fb_satisfied r) \<and> optional_isBoolean (fb_reEditRequested r) \<and>
      fb_other_fields_valid r)"

section \<open>Editor controller\<close>

definition updateProjectStatus ::
  "int \<Rightarrow> status_update_request \<Rightarrow> collection \<Rightarrow> (http_error + project) \<times> collection" where
  "updateProjectStatus now r db =
     (if \<not> updateStatusValidation r then (Inl (HttpError 400 ''Validation failed''), db)
      else case findOne_assigned (su_projectId r) (su_editorId r) db of
        None \<Rightarrow> (Inl (HttpError 404 ''Project not found or not assigned to you''), db)
      | Some project \<Rightarrow>
          if su_status r \<notin> set [''assigned'', ''in_progress'', ''completed'', ''revision_in_progress'']
          then (Inl (HttpError 400 ''Invalid status''), db)
          else
            let oldStatus = status project;
                p1 = project\<lparr>status := su_status r\<rparr>;
                p2 = (case su_progress r of
                        None \<Rightarrow> p1
                      | Some g \<Rightarrow> p1\<lparr>progress := max 0 (min 100 g)\<rparr>);
                s = addTimelineEntry now
                      (''Status updated from '' @ oldStatus @ '' to '' @ su_status r)
                      (Some (su_editorId r))
                      (Some (str_or (su_notes r)
                         (''Progress: '' @ number_toString (progress p2) @ ''%'')))
                      (p2, db)
            in (Inr (fst s), snd s))"

text \<open>
  The new version number is taken before the file goes to the object store; the outcome
  of that upload is the parameter \<open>driveUpload\<close> (\<open>None\<close> when it throws). The version
  is pushed and the status written only after it.
\<close>

definition uploadEditedVersion ::
  "int \<Rightarrow> upload_request \<Rightarrow> drive_file option \<Rightarrow> collection \<Rightarrow> (http_error + project) \<times> collection" where
  "uploadEditedVersion now r driveUpload db =
     (case up_file r of
        None \<Rightarrow> (Inl (HttpError 400 ''No video file uploaded''), db)
      | Some originalname \<Rightarrow>
         (case findOne_assigned (up_projectId r) (up_editorId r) db of
            None \<Rightarrow> (Inl (HttpError 404 ''Project not found or not assigned to you''), db)
          | Some project \<Rightarrow>
              let newVersionNumber =
                    (case getLatestVersion project of
                       None \<Rightarrow> 1
                     | Some latestVersion \<Rightarrow> version latestVersion + 1)
              in (case driveUpload of
                    None \<Rightarrow> (Inl (HttpError 500 ''Error uploading to Google Drive''), db)
                  | Some uploadedFile \<Rightarrow>
                      let p1 = project\<lparr>editedVersions := editedVersions project @
                                 [\<lparr>version = newVersionNumber, filename = originalname,
                                   driveFileId = file_id uploadedFile,
                                   driveFileUrl = webViewLink uploadedFile,
                                   uploadDate = now,
                                   version_notes = str_or (up_notes r) [],
                                   version_status = ''pending''\<rparr>]\<rparr>;
                          p2 = p1\<lparr>status := ''completed'', progress := 100\<rparr>;
                          s = addTimelineEntry now
                                (''Uploaded edited version v'' @ number_toString newVersionNumber)
                                (Some (up_editorId r)) (up_notes r) (p2, db)
                      in (Inr (fst s), snd s))))"

text \<open>
  The logged forms of the two editor operations: the same handlers, with the \<open>save()\<close>
  inside \<open>addTimelineEntry\<close> recorded.
\<close>

definition updateProjectStatus_logged ::
  "int \<Rightarrow> status_update_request \<Rightarrow> collection \<Rightarrow> (http_error + project) \<times> store" where
  "updateProjectStatus_logged now r db =
     (if \<not> updateStatusValidation r then (Inl (HttpError 400 ''Validation failed''), db, [])
      else case findOne_assigned (su_projectId r) (su_editorId r) db of
        None \<Rightarrow> (Inl (HttpError 404 ''Project not found or not assigned to you''), db, [])
      | Some project \<Rightarrow>
          if su_status r \<notin> set [''assigned'', ''in_progress'', ''completed'', ''revision_in_progress'']
          then (Inl (HttpError 400 ''Invalid status''), db, [])
          else
            let oldStatus = status project;
                p1 = project\<lparr>status := su_status r\<rparr>;
                p2 = (case su_progress r of
                        None \<Rightarrow> p1
                      | Some g \<Rightarrow> p1\<lparr>progress := max 0 (min 100 g)\<rparr>);
                s = addTimelineEntry_logged now
                      (''Status updated from '' @ oldStatus @ '' to '' @ su_status r)
                      (Some (su_editorId r))
                      (Some (str_or (su_notes r)
                         (''Progress: '' @ number_toString (progress p2) @ ''%'')))
                      (p2, db, [])
            in (Inr (fst s), snd s))"

definition uploadEditedVersion_logged ::
  "int \<Rightarrow> upload_request \<Rightarrow> drive_file option \<Rightarrow> collection \<Rightarrow> (http_error + project) \<times> store" where
  "uploadEditedVersion_logged now r driveUpload db =
     (case up_file r of
        None \<Rightarrow> (Inl (HttpError 400 ''No video file uploaded''), db, [])
      | Some originalname \<Rightarrow>
         (case findOne_assigned (up_projectId r) (up_editorId r) db of
            None \<Rightarrow> (Inl (HttpError 404 ''Project not found or not assigned to you''), db, [])
          | Some project \<Rightarrow>
              let newVersionNumber =
                    (case getLatestVersion project of
                       None \<Rightarrow> 1
                     | Some latestVersion \<Rightarrow> version latestVersion + 1)
              in (case driveUpload of
                    None \<Rightarrow> (Inl (HttpError 500 ''Error uploading to Google Drive''), db, [])
                  | Some uploadedFile \<Rightarrow>
                      let p1 = project\<lparr>editedVersions := editedVersions project @
                                 [\<lparr>version = newVersionNumber, filename = originalname,
                                   driveFileId = file_id uploadedFile,
                                   driveFileUrl = webViewLink uploadedFile,
                                   uploadDate = now,
                                   version_notes = str_or (up_notes r) [],
                                   version_status = ''pending''\<rparr>]\<rparr>;
                          p2 = p1\<lparr>status := ''completed'', progress := 100\<rparr>;
                          s = addTimelineEntry_logged now
                                (''Uploaded edited version v'' @ number_toString newVersionNumber)
                                (Some (up_editorId r)) (up_notes r) (p2, db, [])
                      in (Inr (fst s), snd s))))"

section \<open>Admin controller\<close>

text \<open>
  \<open>previousEditor\<close> is the populated reference: the user document of the stored
  editor id, \<open>null\<close> when there is no id or no such user. \<open>isActualReassignment\<close> tests
  the flag for truthiness and compares the previous editor's id, as a string, with the
  \<open>editorId\<close> string of the body.
\<close>

definition previousEditor :: "user_doc list \<Rightarrow> project \<Rightarrow> user_doc option" where
  "previousEditor users project =
     (case assignedEditor project of
        None \<Rightarrow> None
      | Some e \<Rightarrow> User_findById e users)"

definition isActualReassignment :: "user_doc list \<Rightarrow> assign_request \<Rightarrow> project \<Rightarrow> bool" where
  "isActualReassignment users r project =
     (truthy (as_isReassignment r) \<and>
      (case previousEditor users project of
         None \<Rightarrow> False
       | Some prev \<Rightarrow> user_id prev \<noteq> as_editorId r))"

text \<open>
  The handler reads the clock four times: for \<open>assignedDate\<close> (\<open>new Date()\<close>), for the
  deadline (\<open>Date.now()\<close>), for the date of the comment, and for the default timestamp of
  the timeline entry. It saves the document with the new status first and then adds the
  timeline entry, which saves again.
\<close>

record assign_clock =
  at_assignedDate :: int
  at_editorDeadline :: int
  at_comment :: int
  at_timeline :: int

definition assignProjectToEditor_logged ::
  "assign_clock \<Rightarrow> user_doc list \<Rightarrow> assign_request \<Rightarrow> collection \<Rightarrow> (http_error + project) \<times> store" where
  "assignProjectToEditor_logged clock users r db =
     (if \<not> assignProjectValidation r then (Inl (HttpError 400 ''Validation failed''), db, [])
      else case findById (ObjectId_of (as_projectId r)) db of
        None \<Rightarrow> (Inl (HttpError 404 ''Project not found''), db, [])
      | Some project \<Rightarrow>
         (case User_findById (ObjectId_of (as_editorId r)) users of
            None \<Rightarrow> (Inl (HttpError 404 ''Editor not found''), db, [])
          | Some editor \<Rightarrow>
              if user_role editor \<noteq> ''editor''
              then (Inl (HttpError 404 ''Editor not found''), db, [])
              else
                let reassignment = isActualReassignment users r project;
                    p1 = project\<lparr>assignedEditor := Some (ObjectId_of (as_editorId r)),
                                 assignedDate := Some (at_assignedDate clock),
                                 status := (if reassignment then ''reassigned'' else ''assigned'')\<rparr>;
                    p2 = (if truthy_str (as_dueDate r) then p1\<lparr>dueDate := as_dueDate r\<rparr> else p1);
                    p3 = (if truthy_str (as_notes r) then p2\<lparr>adminNotes := as_notes r\<rparr> else p2);
                    hours = num_or (as_deadlineHours r) 24;
                    p4 = p3\<lparr>editorDeadlineHours := hours,
                            editorDeadline := Some (at_editorDeadline clock + hours * 60 * 60 * 1000),
                            isEditorDeadlineExceeded := False\<rparr>;
                    p5 = (if truthy_str (as_comments r)
                          then p4\<lparr>adminComments := adminComments p4 @
                                 [\<lparr>comment = as_comments r, comment_date = at_comment clock,
                                   comment_type = (if reassignment then ''reassignment''
                                                   else ''assignment'')\<rparr>]\<rparr>
                          else p4);
                    s = addTimelineEntry_logged (at_timeline clock)
                          (if reassignment
                           then ''Project reassigned to '' @ user_name editor @
                                (case previousEditor users project of
                                   None \<Rightarrow> []
                                 | Some prev \<Rightarrow> '' (from '' @ user_name prev @ '')'')
                           else ''Project assigned to '' @ user_name editor)
                          (Some (as_adminId r))
                          (or_str (as_comments r) (as_notes r))
                          (p5, save_logged p5 (db, []))
                in (Inr (fst s), snd s)))"

definition assignProjectToEditor ::
  "assign_clock \<Rightarrow> user_doc list \<Rightarrow> assign_request \<Rightarrow> collection \<Rightarrow> (http_error + project) \<times> collection" where
  "assignProjectToEditor clock users r db =
     map_prod id fst (assignProjectToEditor_logged clock users r db)"

text \<open>
  After its writes \<open>reviewProject\<close> builds the answer from a second read of the project,
  on which it populates the path \<open>client\<close>. The schema has no such path. Whether that
  populate throws is a setting of the database library (\<open>strictPopulate\<close>, the default of
  its later versions) and is the parameter \<open>strictPopulate\<close>: when it throws, the handler
  answers 500 from its \<open>catch\<close>, after the writes. The answer's project is the document
  read, \<open>null\<close> when there is none.
\<close>

definition reviewProject_logged ::
  "int \<Rightarrow> bool \<Rightarrow> review_request \<Rightarrow> collection \<Rightarrow> (http_error + project option) \<times> store" where
  "reviewProject_logged now strictPopulate r db =
     (if \<not> reviewProjectValidation r then (Inl (HttpError 400 ''Validation failed''), db, [])
      else case findById (ObjectId_of (rv_projectId r)) db of
        None \<Rightarrow> (Inl (HttpError 404 ''Project not found''), db, [])
      | Some project \<Rightarrow>
          if status project \<noteq> ''completed''
          then (Inl (HttpError 400 ''Project is not ready for review''), db, [])
          else
            let s =
              (if rv_action r = ''approve'' then
                 addTimelineEntry_logged now ''Project approved by admin - Ready for client download''
                   (Some (rv_adminId r)) (rv_notes r)
                   (project\<lparr>status := ''approved'',
                      adminComments := adminComments project @
                        [\<lparr>comment = Some (str_or (rv_notes r) ''Project approved by admin''),
                          comment_date = now, comment_type = ''review''\<rparr>]\<rparr>, db, [])
               else if rv_action r = ''request_revision'' then
                 addTimelineEntry_logged now ''Admin requested revisions from editor''
                   (Some (rv_adminId r)) (rv_notes r)
                   (project\<lparr>status := ''revision_requested'',
                      adminComments := adminComments project @
                        [\<lparr>comment = rv_notes r,
                          comment_date = now, comment_type = ''review''\<rparr>]\<rparr>, db, [])
               else if rv_action r = ''reassign'' then
                 addTimelineEntry_logged now ''Admin marked project for reassignment during review''
                   (Some (rv_adminId r)) (rv_notes r)
                   (project\<lparr>adminComments := adminComments project @
                        [\<lparr>comment = Some (str_or (rv_notes r)
                                    ''Project marked for reassignment during review''),
                          comment_date = now, comment_type = ''review''\<rparr>]\<rparr>, db, [])
               else (project, db, []));
                st = save_logged (fst s) (snd s)
            in if strictPopulate then (Inl (HttpError 500 ''Error reviewing project''), st)
               else (Inr (findById (ObjectId_of (rv_projectId r)) (fst st)), st))"

definition reviewProject ::
  "int \<Rightarrow> bool \<Rightarrow> review_request \<Rightarrow> collection \<Rightarrow> (http_error + project option) \<times> collection" where
  "reviewProject now strictPopulate r db =
     map_prod id fst (reviewProject_logged now strictPopulate r db)"

section \<open>Client controller\<close>

text \<open>
  The feedback entry is pushed with the flags as they arrived; the schema casts them to
  booleans when the document is validated for the first save, and a value it cannot cast
  makes that save throw, so that the handler answers 500 with nothing written. The
  branches test the flags themselves for truthiness.
\<close>

definition submitFeedback_logged ::
  "int \<Rightarrow> feedback_request \<Rightarrow> collection \<Rightarrow> (http_error + project) \<times> store" where
  "submitFeedback_logged now r db =
     (if \<not> feedbackValidation r then (Inl (HttpError 400 ''Validation failed''), db, [])
      else case findOne_publicId (fb_publicId r) db of
        None \<Rightarrow> (Inl (HttpError 404 ''Project not found''), db, [])
      | Some project \<Rightarrow>
          if status project \<notin> set [''approved'', ''completed'']
          then (Inl (HttpError 400 ''Project is not ready for feedback''), db, [])
          else
            (case (castBoolean (fb_satisfied r),
                   castBoolean (if truthy (fb_reEditRequested r) then fb_reEditRequested r
                                else JBool False)) of
               (Some storedSatisfied, Some (Some storedReEdit)) \<Rightarrow>
                 let feedbackData =
                       \<lparr>message = fb_feedback r, feedback_timestamp = now,
                        feedback_version = num_or (fb_version r)
                           (num_or (map_option version (getLatestVersion project)) 1),
                        feedback_status = fb_status r, rating = fb_rating r,
                        satisfied = storedSatisfied,
                        reEditRequested = storedReEdit,
                        reEditComments = fb_reEditComments r\<rparr>;
                     p1 = project\<lparr>clientFeedback := clientFeedback project @ [feedbackData]\<rparr>;
                     s =
                       (if fb_status r = ''approved'' \<and> truthy (fb_satisfied r) then
                          addTimelineEntry_logged now ''Client approved the project'' None
                            (Some (fb_feedback r)) (p1\<lparr>status := ''delivered''\<rparr>, db, [])
                        else if fb_status r = ''revision_requested'' \<or> \<not> truthy (fb_satisfied r) then
                          (if truthy (fb_reEditRequested r) then
                             addTimelineEntry_logged now ''Client requested re-edit'' None
                               (Some (str_or (fb_reEditComments r) (fb_feedback r)))
                               (p1\<lparr>status := ''client_reedit''\<rparr>, db, [])
                           else
                             addTimelineEntry_logged now ''Client requested revisions'' None
                               (Some (fb_feedback r))
                               (p1\<lparr>status := ''revision_requested''\<rparr>, db, []))
                        else (p1, db, []))
                 in (Inr (fst s), save_logged (fst s) (snd s))
             | _ \<Rightarrow> (Inl (HttpError 500 ''Error submitting feedback''), db, [])))"

definition submitFeedback ::
  "int \<Rightarrow> feedback_request \<Rightarrow> collection \<Rightarrow> (http_error + project) \<times> collection" where
  "submitFeedback now r db = map_prod id fst (submitFeedback_logged now r db)"

section \<open>The transition table\<close>

text \<open>
  A trigger is one request to one of the five operations; the upload carries the outcome
  of the object store with it, the review the \<open>strictPopulate\<close> setting. \<open>apply_trigger\<close>
  gives the answer and the collection afterwards, \<open>run_trigger\<close> the answer, the
  collection and the documents written. Both take one reading of the clock for the whole
  request. A review's answer is kept as the project it carries; its answer without a
  project is kept as status code and message.
\<close>

datatype trigger =
  Assign assign_request
| EditorStatusUpdate status_update_request
| UploadVersion upload_request "drive_file option"
| Review review_request bool
| ClientFeedback feedback_request

definition one_reading :: "int \<Rightarrow> assign_clock" where
  "one_reading now =
     \<lparr>at_assignedDate = now, at_editorDeadline = now, at_comment = now, at_timeline = now\<rparr>"

definition review_answer :: "review_request \<Rightarrow> http_error + project option \<Rightarrow> http_error + project" where
  "review_answer r a =
     (case a of
        Inl e \<Rightarrow> Inl e
      | Inr None \<Rightarrow>
          Inl (HttpError 200
            (''Project '' @
             (if rv_action r = ''approve'' then ''approved''
              else if rv_action r = ''request_revision'' then ''revision requested''
              else ''marked for reassignment'')))
      | Inr (Some p) \<Rightarrow> Inr p)"

fun apply_trigger ::
  "int \<Rightarrow> user_doc list \<Rightarrow> trigger \<Rightarrow> collection \<Rightarrow> (http_error + project) \<times> collection" where
  "apply_trigger now users (Assign r) db = assignProjectToEditor (one_reading now) users r db"
| "apply_trigger now users (EditorStatusUpdate r) db = updateProjectStatus now r db"
| "apply_trigger now users (UploadVersion r d) db = uploadEditedVersion now r d db"
| "apply_trigger now users (Review r strictPopulate) db =
     map_prod (review_answer r) id (reviewProject now strictPopulate r db)"
| "apply_trigger now users (ClientFeedback r) db = submitFeedback now r db"

fun run_trigger ::
  "int \<Rightarrow> user_doc list \<Rightarrow> trigger \<Rightarrow> collection \<Rightarrow> (http_error + project) \<times> store" where
  "run_trigger now users (Assign r) db = assignProjectToEditor_logged (one_reading now) users r db"
| "run_trigger now users (EditorStatusUpdate r) db = updateProjectStatus_logged now r db"
| "run_trigger now users (UploadVersion r d) db = uploadEditedVersion_logged now r d db"
| "run_trigger now users (Review r strictPopulate) db =
     map_prod (review_answer r) id (reviewProject_logged now strictPopulate r db)"
| "run_trigger now users (ClientFeedback r) db = submitFeedback_logged now r db"

text \<open>
  The request passes the boundary and reaches project \<open>p\<close>: the validation chain
  accepts it, the controller's query finds \<open>p\<close>, the editor to assign exists, the file
  is present and the object store took it.
\<close>

fun resolves :: "user_doc list \<Rightarrow> collection \<Rightarrow> trigger \<Rightarrow> project \<Rightarrow> bool" where
  "resolves users db (Assign r) p =
     (assignProjectValidation r \<and> findById (ObjectId_of (as_projectId r)) db = Some p \<and>
      (case User_findById (ObjectId_of (as_editorId r)) users of
         None \<Rightarrow> False
       | Some editor \<Rightarrow> user_role editor = ''editor''))"
| "resolves users db (EditorStatusUpdate r) p =
     (updateStatusValidation r \<and> findOne_assigned (su_projectId r) (su_editorId r) db = Some p)"
| "resolves users db (UploadVersion r d) p =
     (up_file r \<noteq> None \<and> findOne_assigned (up_projectId r) (up_editorId r) db = Some p \<and>
      d \<noteq> None)"
| "resolves users db (Review r strictPopulate) p =
     (reviewProjectValidation r \<and> findById (ObjectId_of (rv_projectId r)) db = Some p)"
| "resolves users db (ClientFeedback r) p =
     (feedbackValidation r \<and> findOne_publicId (fb_publicId r) db = Some p)"

text \<open>
  The specification's transition table (section 4.1), row by row: the source states in
  which each trigger is listed as valid. This definition follows the specification, not
  the code; the theorems below compare the two.
\<close>

fun spec_valid_pair :: "string \<Rightarrow> trigger \<Rightarrow> bool" where
  "spec_valid_pair src (Assign r) = True"
| "spec_valid_pair src (EditorStatusUpdate r) =
     (src \<in> set [''assigned'', ''reassigned'', ''in_progress'', ''revision_in_progress''] \<and>
      su_status r \<in> set [''assigned'', ''in_progress'', ''completed'', ''revision_in_progress''])"
| "spec_valid_pair src (UploadVersion r d) = True"
| "spec_valid_pair src (Review r strictPopulate) =
     (src = ''completed'' \<and> rv_action r \<in> set [''approve'', ''request_revision'', ''reassign''])"
| "spec_valid_pair src (ClientFeedback r) =
     (src \<in> set [''approved'', ''completed''] \<and>
      (fb_status r = ''approved'' \<and> fb_satisfied r = JBool True \<or>
       fb_status r = ''revision_requested''))"

text \<open>The source-state guards that the controllers do have.\<close>

fun guard_rejects :: "string \<Rightarrow> trigger \<Rightarrow> bool" where
  "guard_rejects src (Review r strictPopulate) = (src \<noteq> ''completed'')"
| "guard_rejects src (ClientFeedback r) = (src \<notin> set [''approved'', ''completed''])"
| "guard_rejects src t = False"

text \<open>
  The status a trigger writes when it is applied to project \<open>p\<close>, read off the
  assignments to \<open>project.status\<close> in the five handlers.
\<close>

fun written_status :: "user_doc list \<Rightarrow> trigger \<Rightarrow> project \<Rightarrow> string" where
  "written_status users (Assign r) p =
     (if isActualReassignment users r p then ''reassigned'' else ''assigned'')"
| "written_status users (EditorStatusUpdate r) p = su_status r"
| "written_status users (UploadVersion r d) p = ''completed''"
| "written_status users (Review r strictPopulate) p =
     (if rv_action r = ''approve'' then ''approved''
      else if rv_action r = ''request_revision'' then ''revision_requested''
      else status p)"
| "written_status users (ClientFeedback r) p =
     (if fb_status r = ''approved'' \<and> truthy (fb_satisfied r) then ''delivered''
      else if truthy (fb_reEditRequested r) then ''client_reedit''
      else ''revision_requested'')"

section \<open>Sample data\<close>

definition sample_project :: project where
  "sample_project =
     \<lparr>proj_id = ''p1'', publicId = ''CE1'', status = ''completed'', progress = 40,
      assignedEditor = Some ''e1'', assignedDate = Some 1000, editorDeadlineHours = 24,
      editorDeadline = Some 86401000, isEditorDeadlineExceeded = False,
      dueDate = None, adminNotes = None, driveFolderId = ''folder1'',
      editedVersions = [], timeline = [], adminComments = [], clientFeedback = []\<rparr>"

definition sample_users :: "user_doc list" where
  "sample_users =
     [\<lparr>user_id = ''e1'', user_name = ''Asha'', user_email = ''asha@example.org'',
       user_role = ''editor''\<rparr>,
      \<lparr>user_id = ''e2'', user_name = ''Ravi'', user_email = ''ravi@example.org'',
       user_role = ''editor''\<rparr>,
      \<lparr>user_id = ''a1'', user_name = ''Admin'', user_email = ''admin@example.org'',
       user_role = ''admin''\<rparr>]"

definition sample_version :: "int \<Rightarrow> version_entry" where
  "sample_version n =
     \<lparr>version = n, filename = ''cut.mp4'', driveFileId = ''f'', driveFileUrl = ''u'',
      uploadDate = 0, version_notes = [], version_status = ''pending''\<rparr>"

definition sample_drive_file :: drive_file where
  "sample_drive_file = \<lparr>file_id = ''f1'', webViewLink = ''https://drive.example/f1''\<rparr>"

definition sample_upload_request :: upload_request where
  "sample_upload_request =
     \<lparr>up_file = Some ''cut.mp4'', up_projectId = ''p1'', up_editorId = ''e1'',
      up_notes = None\<rparr>"

definition sample_status_update_request :: status_update_request where
  "sample_status_update_request =
     \<lparr>su_other_fields_valid = True, su_projectId = ''p1'', su_editorId = ''e1'',
      su_status = ''in_progress'', su_progress = Some 50, su_notes = None\<rparr>"

definition sample_assign_request :: assign_request where
  "sample_assign_request =
     \<lparr>as_other_fields_valid = True, as_adminId = ''a1'', as_projectId = ''p1'',
      as_editorId = ''e2'', as_notes = None, as_dueDate = None, as_comments = None,
      as_isReassignment = JBool True, as_deadlineHours = Some 48\<rparr>"

definition sample_review_request :: review_request where
  "sample_review_request =
     \<lparr>rv_other_fields_valid = True, rv_adminId = ''a1'', rv_projectId = ''p1'',
      rv_action = ''approve'', rv_notes = None\<rparr>"

definition sample_feedback_request :: feedback_request where
  "sample_feedback_request =
     \<lparr>fb_other_fields_valid = True, fb_publicId = ''CE1'', fb_feedback = ''Looks good'',
      fb_status = ''approved'', fb_version = None, fb_rating = Some 5,
      fb_satisfied = JBool True, fb_reEditRequested = JUndefined, fb_reEditComments = None\<rparr>"

section \<open>Version registry\<close>

lemma foldl_latest_mem:
  "foldl (\<lambda>latest current. if version current > version latest then current else latest) v vs
     \<in> set (v # vs)"
  by (induction vs arbitrary: v) (auto split: if_splits)

lemma foldl_latest_start:
  "version v \<le> version (foldl (\<lambda>latest current.
        if version current > version latest then current else latest) v vs)"
proof (induction vs arbitrary: v)
  case Nil
  show ?case by simp
next
  case (Cons a vs)
  show ?case
  proof (cases "version a > version v")
    case True
    have "version a \<le> version (foldl (\<lambda>latest current.
        if version current > version latest then current else latest) a vs)"
      by (rule Cons.IH)
    with True show ?thesis by simp
  next
    case False
    then show ?thesis using Cons.IH [of v] by simp
  qed
qed

lemma foldl_latest_ge:
  "w \<in> set (v # vs) \<Longrightarrow>
   version w \<le> version (foldl (\<lambda>latest current.
        if version current > version latest then current else latest) v vs)"
proof (induction vs arbitrary: v)
  case Nil
  then show ?case by simp
next
  case (Cons a vs)
  show ?case
  proof (cases "w = v")
    case True
    then show ?thesis using foldl_latest_start [of v "a # vs"] by simp
  next
    case False
    with Cons.prems have w: "w \<in> set (a # vs)" by simp
    show ?thesis
    proof (cases "version a > version v")
      case True
      then show ?thesis using Cons.IH [of a] w by simp
    next
      case False
      have "version w \<le> version (foldl (\<lambda>latest current.
        if version current > version latest then current else latest) v vs)"
      proof (cases "w = a")
        case True
        with False have "version w \<le> version v" by simp
        also have "\<dots> \<le> version (foldl (\<lambda>latest current.
          if version current > version latest then current else latest) v vs)"
          by (rule foldl_latest_start)
        finally show ?thesis .
      next
        case False
        with w have "w \<in> set (v # vs)" by simp
        then show ?thesis by (rule Cons.IH)
      qed
      with False show ?thesis by simp
    qed
  qed
qed

lemma getLatestVersion_None_iff: "getLatestVersion p = None \<longleftrightarrow> editedVersions p = []"
  by (simp add: getLatestVersion_def split: list.splits)

lemma getLatestVersion_Some:
  assumes "editedVersions p \<noteq> []"
  shows "\<exists>v. getLatestVersion p = Some v \<and> v \<in> set (editedVersions p) \<and>
           version v = Max (version ` set (editedVersions p))"
proof -
  from assms obtain v vs where vs: "editedVersions p = v # vs"
    by (cases "editedVersions p") auto
  let ?r = "foldl (\<lambda>latest current.
        if version current > version latest then current else latest) v vs"
  have r: "getLatestVersion p = Some ?r"
    by (simp add: getLatestVersion_def vs)
  have mem: "?r \<in> set (editedVersions p)"
    unfolding vs by (rule foldl_latest_mem)
  have "Max (version ` set (editedVersions p)) = version ?r"
  proof (rule Max_eqI)
    show "finite (version ` set (editedVersions p))" by simp
    show "version ?r \<in> version ` set (editedVersions p)" using mem by (rule imageI)
    fix y assume "y \<in> version ` set (editedVersions p)"
    then obtain w where "w \<in> set (v # vs)" "y = version w" unfolding vs by auto
    then show "y \<le> version ?r" using foldl_latest_ge by blast
  qed
  with r mem show ?thesis by simp
qed

lemma next_version_number:
  "(case getLatestVersion p of None \<Rightarrow> 1 | Some l \<Rightarrow> version l + 1) =
   (if editedVersions p = [] then 0 else Max (version ` set (editedVersions p))) + 1"
proof (cases "editedVersions p = []")
  case True
  then have "getLatestVersion p = None" by (simp add: getLatestVersion_None_iff)
  with True show ?thesis by simp
next
  case False
  from getLatestVersion_Some [OF False] show ?thesis using False by auto
qed

text \<open>
  C5. \<open>getLatestVersion\<close> returns nothing exactly when the project has no versions;
  otherwise it returns one of the stored entries, whose number is the maximum of all
  stored numbers, whatever the order of the array; stored in the order 3, 1, 2 the
  entry numbered 3 is returned.
\<close>

theorem getLatestVersion_max:
  "(getLatestVersion p = None \<longleftrightarrow> editedVersions p = []) \<and>
   (editedVersions p \<noteq> [] \<longrightarrow>
      (\<exists>v. getLatestVersion p = Some v \<and> v \<in> set (editedVersions p) \<and>
           version v = Max (version ` set (editedVersions p)))) \<and>
   (map version (editedVersions p) = [3, 1, 2] \<longrightarrow>
      map_option version (getLatestVersion p) = Some 3)"
proof (intro conjI impI)
  show "getLatestVersion p = None \<longleftrightarrow> editedVersions p = []"
    by (rule getLatestVersion_None_iff)
next
  assume "editedVersions p \<noteq> []"
  then show "\<exists>v. getLatestVersion p = Some v \<and> v \<in> set (editedVersions p) \<and>
           version v = Max (version ` set (editedVersions p))"
    by (rule getLatestVersion_Some)
next
  assume "map version (editedVersions p) = [3, 1, 2]"
  then obtain a b c where "editedVersions p = [a, b, c]"
    and "version a = 3" and "version b = 1" and "version c = 2"
    by (auto simp: map_eq_Cons_conv)
  then show "map_option version (getLatestVersion p) = Some 3"
    by (simp add: getLatestVersion_def)
qed

theorem getLatestVersion_max_witness:
  "editedVersions (sample_project\<lparr>editedVersions := map sample_version [3, 1, 2]\<rparr>) \<noteq> [] \<and>
   map version (editedVersions (sample_project\<lparr>editedVersions := map sample_version [3, 1, 2]\<rparr>))
     = [3, 1, 2] \<and>
   map_option version
     (getLatestVersion (sample_project\<lparr>editedVersions := map sample_version [3, 1, 2]\<rparr>)) = Some 3 \<and>
   Max (version ` set (editedVersions
     (sample_project\<lparr>editedVersions := map sample_version [3, 1, 2]\<rparr>))) = 3"
  using getLatestVersion_max [of "sample_project\<lparr>editedVersions := map sample_version [3, 1, 2]\<rparr>"]
  by (simp add: sample_version_def)

section \<open>Queries after a save\<close>

lemma find_save:
  "find P db = Some p \<Longrightarrow> proj_id p' = proj_id p \<Longrightarrow> P p' \<Longrightarrow> find P (save p' db) = Some p'"
proof (induction db)
  case Nil
  then show ?case by simp
next
  case (Cons a db)
  show ?case
  proof (cases "proj_id a = proj_id p'")
    case True
    with Cons.prems show ?thesis by (simp add: save_def)
  next
    case False
    with Cons.prems have "\<not> P a" by (auto split: if_splits)
    with Cons False show ?thesis by (simp add: save_def)
  qed
qed

lemma save_save: "proj_id p' = proj_id p \<Longrightarrow> save p' (save p db) = save p' db"
  by (induction db) (auto simp: save_def)

lemma find_Some_P: "find P db = Some p \<Longrightarrow> P p"
  by (induction db) (auto split: if_splits)

section \<open>What each operation writes when it is accepted\<close>

text \<open>
  Each lemma gives the document that the controller saves, as the stored document with
  the fields the controller assigns, and the collection after the save.
\<close>

lemma uploadEditedVersion_success:
  assumes "up_file r = Some name"
    and "findOne_assigned (up_projectId r) (up_editorId r) db = Some p"
  shows "\<exists>p' v e. uploadEditedVersion now r (Some f) db = (Inr p', save p' db) \<and>
     p' = p\<lparr>editedVersions := editedVersions p @ [v], status := ''completed'', progress := 100,
           timeline := timeline p @ [e]\<rparr> \<and>
     version v = (case getLatestVersion p of None \<Rightarrow> 1 | Some l \<Rightarrow> version l + 1) \<and>
     driveFileId v = file_id f \<and> driveFileUrl v = webViewLink f"
  using assms
  apply (simp add: uploadEditedVersion_def addTimelineEntry_def Let_def)
  apply (intro exI conjI)
     apply (rule refl)
    apply simp_all
  done

lemma updateProjectStatus_success:
  assumes "updateStatusValidation r"
    and "findOne_assigned (su_projectId r) (su_editorId r) db = Some p"
  shows "\<exists>p' e. updateProjectStatus now r db = (Inr p', save p' db) \<and>
     p' = p\<lparr>status := su_status r,
           progress := (case su_progress r of None \<Rightarrow> progress p | Some g \<Rightarrow> max 0 (min 100 g)),
           timeline := timeline p @ [e]\<rparr>"
proof (cases "su_progress r")
  case None
  with assms show ?thesis
    apply (simp add: updateProjectStatus_def updateStatusValidation_def addTimelineEntry_def Let_def)
    apply (intro exI)
    apply (rule refl)
    done
next
  case (Some g)
  with assms show ?thesis
    apply (simp add: updateProjectStatus_def updateStatusValidation_def addTimelineEntry_def Let_def)
    apply (intro exI)
    apply (rule refl)
    done
qed

lemma findOne_assigned_save:
  assumes "findOne_assigned pid eid db = Some p"
    and "proj_id p' = proj_id p" and "assignedEditor p' = assignedEditor p"
  shows "findOne_assigned pid eid (save p' db) = Some p'"
proof -
  from assms(1) have "proj_id p = pid \<and> assignedEditor p = Some eid"
    unfolding findOne_assigned_def by (rule find_Some_P)
  with assms show ?thesis
    unfolding findOne_assigned_def by (intro find_save) auto
qed

section \<open>Numbering of uploaded versions\<close>

text \<open>
  C6. An accepted upload appends one version whose number is the maximum of the stored
  numbers (0 when there are none) plus one. The new number is above every stored number,
  so numbers that were unique stay unique. On a project without versions two uploads in
  a row store the numbers 1 and 2, and \<open>getLatestVersion\<close> then returns number 2.
\<close>

theorem uploadEditedVersion_number:
  assumes upl: "up_file r = Some name"
    and found: "findOne_assigned (up_projectId r) (up_editorId r) db = Some p"
  shows "(\<exists>p' v. uploadEditedVersion now r (Some f) db = (Inr p', save p' db) \<and>
     editedVersions p' = editedVersions p @ [v] \<and>
     version v = (if editedVersions p = [] then 0 else Max (version ` set (editedVersions p))) + 1 \<and>
     (\<forall>w \<in> set (editedVersions p). version w < version v) \<and>
     (distinct (map version (editedVersions p)) \<longrightarrow> distinct (map version (editedVersions p')))) \<and>
   (editedVersions p = [] \<longrightarrow>
     (\<exists>p1 p2. uploadEditedVersion now r (Some f) db = (Inr p1, save p1 db) \<and>
        uploadEditedVersion now2 r (Some f2) (save p1 db) = (Inr p2, save p2 db) \<and>
        map version (editedVersions p1) = [1] \<and>
        map version (editedVersions p2) = [1, 2] \<and>
        map_option version (getLatestVersion p2) = Some 2))"
proof (intro conjI impI)
  from uploadEditedVersion_success [OF upl found, of now f]
  obtain p' v e where res: "uploadEditedVersion now r (Some f) db = (Inr p', save p' db)"
    and p': "p' = p\<lparr>editedVersions := editedVersions p @ [v], status := ''completed'',
           progress := 100, timeline := timeline p @ [e]\<rparr>"
    and v: "version v = (case getLatestVersion p of None \<Rightarrow> 1 | Some l \<Rightarrow> version l + 1)"
    by blast
  have num: "version v = (if editedVersions p = [] then 0 else Max (version ` set (editedVersions p))) + 1"
    using v by (simp only: next_version_number)
  have above: "\<forall>w \<in> set (editedVersions p). version w < version v"
  proof
    fix w assume w: "w \<in> set (editedVersions p)"
    then have "editedVersions p \<noteq> []" by auto
    moreover have "version w \<le> Max (version ` set (editedVersions p))"
      using w by (intro Max_ge) auto
    ultimately show "version w < version v" using num by simp
  qed
  have "distinct (map version (editedVersions p)) \<longrightarrow> distinct (map version (editedVersions p'))"
    using above by (auto simp: p')
  with res num above show "\<exists>p' v. uploadEditedVersion now r (Some f) db = (Inr p', save p' db) \<and>
     editedVersions p' = editedVersions p @ [v] \<and>
     version v = (if editedVersions p = [] then 0 else Max (version ` set (editedVersions p))) + 1 \<and>
     (\<forall>w \<in> set (editedVersions p). version w < version v) \<and>
     (distinct (map version (editedVersions p)) \<longrightarrow> distinct (map version (editedVersions p')))"
    by (intro exI [of _ p'] exI [of _ v]) (simp add: p')
next
  assume empty: "editedVersions p = []"
  from uploadEditedVersion_success [OF upl found, of now f]
  obtain p1 v1 e1 where res1: "uploadEditedVersion now r (Some f) db = (Inr p1, save p1 db)"
    and p1: "p1 = p\<lparr>editedVersions := editedVersions p @ [v1], status := ''completed'',
           progress := 100, timeline := timeline p @ [e1]\<rparr>"
    and v1: "version v1 = (case getLatestVersion p of None \<Rightarrow> 1 | Some l \<Rightarrow> version l + 1)"
    by blast
  have n1: "version v1 = 1" using v1 empty by (simp only: next_version_number) simp
  have vs1: "editedVersions p1 = [v1]" using empty by (simp add: p1)
  have found1: "findOne_assigned (up_projectId r) (up_editorId r) (save p1 db) = Some p1"
    using found by (rule findOne_assigned_save) (simp_all add: p1)
  from uploadEditedVersion_success [OF upl found1, of now2 f2]
  obtain p2 v2 e2 where res2: "uploadEditedVersion now2 r (Some f2) (save p1 db) = (Inr p2, save p2 (save p1 db))"
    and p2: "p2 = p1\<lparr>editedVersions := editedVersions p1 @ [v2], status := ''completed'',
           progress := 100, timeline := timeline p1 @ [e2]\<rparr>"
    and v2: "version v2 = (case getLatestVersion p1 of None \<Rightarrow> 1 | Some l \<Rightarrow> version l + 1)"
    by blast
  have n2: "version v2 = 2" using v2 vs1 n1 by (simp only: next_version_number) simp
  have vs2: "editedVersions p2 = [v1, v2]" using vs1 by (simp add: p2)
  have "proj_id p2 = proj_id p1" by (simp add: p2)
  then have db2: "save p2 (save p1 db) = save p2 db" by (rule save_save)
  have latest: "map_option version (getLatestVersion p2) = Some 2"
    using vs2 n1 n2 by (simp add: getLatestVersion_def)
  from res1 res2 db2 vs1 vs2 n1 n2 latest
  show "\<exists>p1 p2. uploadEditedVersion now r (Some f) db = (Inr p1, save p1 db) \<and>
        uploadEditedVersion now2 r (Some f2) (save p1 db) = (Inr p2, save p2 db) \<and>
        map version (editedVersions p1) = [1] \<and>
        map version (editedVersions p2) = [1, 2] \<and>
        map_option version (getLatestVersion p2) = Some 2"
    by (intro exI [of _ p1] exI [of _ p2]) simp
qed

theorem uploadEditedVersion_number_witness:
  "up_file sample_upload_request = Some ''cut.mp4'' \<and>
   findOne_assigned ''p1'' ''e1'' [sample_project] = Some sample_project \<and>
   editedVersions sample_project = [] \<and>
   (\<exists>p1 p2.
      uploadEditedVersion 10 sample_upload_request (Some sample_drive_file) [sample_project]
        = (Inr p1, save p1 [sample_project]) \<and>
      uploadEditedVersion 20 sample_upload_request (Some sample_drive_file)
        (save p1 [sample_project]) = (Inr p2, save p2 [sample_project]) \<and>
      map version (editedVersions p1) = [1] \<and>
      map version (editedVersions p2) = [1, 2] \<and>
      map_option version (getLatestVersion p2) = Some 2) \<and>
   findOne_assigned ''p1'' ''e1'' [sample_project\<lparr>editedVersions := map sample_version [3, 1, 2]\<rparr>]
     = Some (sample_project\<lparr>editedVersions := map sample_version [3, 1, 2]\<rparr>) \<and>
   distinct [3, 1, 2 :: int] \<and>
   (\<exists>p' v.
      uploadEditedVersion 10 sample_upload_request (Some sample_drive_file)
        [sample_project\<lparr>editedVersions := map sample_version [3, 1, 2]\<rparr>]
        = (Inr p', save p' [sample_project\<lparr>editedVersions := map sample_version [3, 1, 2]\<rparr>]) \<and>
      editedVersions p' = map sample_version [3, 1, 2] @ [v] \<and> version v = 4 \<and>
      map version (editedVersions p') = [3, 1, 2, 4] \<and>
      distinct (map version (editedVersions p')))"
proof -
  let ?q = "sample_project\<lparr>editedVersions := map sample_version [3, 1, 2]\<rparr>"
  have h1: "up_file sample_upload_request = Some ''cut.mp4''"
    by (simp add: sample_upload_request_def)
  have h2: "findOne_assigned (up_projectId sample_upload_request)
      (up_editorId sample_upload_request) [sample_project] = Some sample_project"
    by (simp add: sample_upload_request_def sample_project_def findOne_assigned_def)
  have h3: "editedVersions sample_project = []"
    by (simp add: sample_project_def)
  have h4: "findOne_assigned (up_projectId sample_upload_request)
      (up_editorId sample_upload_request) [?q] = Some ?q"
    by (simp add: sample_upload_request_def sample_project_def findOne_assigned_def)
  have vs: "map version (editedVersions ?q) = [3, 1, 2]"
    by (simp add: sample_version_def)
  have mx: "Max (version ` set (editedVersions ?q)) = 3"
    by (simp add: sample_version_def)
  have ne: "editedVersions ?q \<noteq> []" by simp
  note a = uploadEditedVersion_number [OF h1 h2, of 10 sample_drive_file 20 sample_drive_file]
  note b = uploadEditedVersion_number [OF h1 h4, of 10 sample_drive_file 20 sample_drive_file]
  from a h3 have trip: "\<exists>p1 p2.
      uploadEditedVersion 10 sample_upload_request (Some sample_drive_file) [sample_project]
        = (Inr p1, save p1 [sample_project]) \<and>
      uploadEditedVersion 20 sample_upload_request (Some sample_drive_file)
        (save p1 [sample_project]) = (Inr p2, save p2 [sample_project]) \<and>
      map version (editedVersions p1) = [1] \<and>
      map version (editedVersions p2) = [1, 2] \<and>
      map_option version (getLatestVersion p2) = Some 2"
    by blast
  from b obtain p' v where
    r: "uploadEditedVersion 10 sample_upload_request (Some sample_drive_file) [?q]
        = (Inr p', save p' [?q])"
    and app: "editedVersions p' = editedVersions ?q @ [v]"
    and num: "version v = (if editedVersions ?q = [] then 0
                else Max (version ` set (editedVersions ?q))) + 1"
    and dist: "distinct (map version (editedVersions ?q)) \<longrightarrow>
               distinct (map version (editedVersions p'))"
    by blast
  from num ne mx have v4: "version v = 4" by simp
  from app vs v4 have all: "map version (editedVersions p') = [3, 1, 2, 4]" by simp
  from dist vs have d: "distinct (map version (editedVersions p'))" by simp
  have more: "\<exists>p' v.
      uploadEditedVersion 10 sample_upload_request (Some sample_drive_file) [?q]
        = (Inr p', save p' [?q]) \<and>
      editedVersions p' = map sample_version [3, 1, 2] @ [v] \<and> version v = 4 \<and>
      map version (editedVersions p') = [3, 1, 2, 4] \<and>
      distinct (map version (editedVersions p'))"
  proof (intro exI [of _ p'] exI [of _ v] conjI)
    show "uploadEditedVersion 10 sample_upload_request (Some sample_drive_file) [?q]
        = (Inr p', save p' [?q])" by (rule r)
    show "editedVersions p' = map sample_version [3, 1, 2] @ [v]" using app by simp
    show "version v = 4" by (rule v4)
    show "map version (editedVersions p') = [3, 1, 2, 4]" by (rule all)
    show "distinct (map version (editedVersions p'))" by (rule d)
  qed
  from h1 h2 h3 h4 trip more show ?thesis
    by (simp add: sample_upload_request_def)
qed

section \<open>Upload of a deliverable version\<close>

text \<open>
  C7. When the assigned editor uploads a file and the object store takes it, the project
  is written with status \<open>completed\<close> and progress 100 and with one more version, which
  carries the reference the store returned. When the upload to the object store fails,
  the request ends in an error and the collection is unchanged: no version is recorded
  and status and progress stay as they were. The request is answered with an error
  exactly when the store failed.
\<close>

theorem uploadEditedVersion_completed:
  assumes upl: "up_file r = Some name"
    and found: "findOne_assigned (up_projectId r) (up_editorId r) db = Some p"
  shows "(\<exists>p' v. uploadEditedVersion now r (Some f) db = (Inr p', save p' db) \<and>
            status p' = ''completed'' \<and> progress p' = 100 \<and>
            editedVersions p' = editedVersions p @ [v] \<and> driveFileId v = file_id f \<and>
            findOne_assigned (up_projectId r) (up_editorId r) (save p' db) = Some p') \<and>
         uploadEditedVersion now r None db
           = (Inl (HttpError 500 ''Error uploading to Google Drive''), db) \<and>
         (isl (fst (uploadEditedVersion now r d db)) \<longleftrightarrow> d = None)"
proof (intro conjI)
  from uploadEditedVersion_success [OF upl found, of now f]
  obtain p' v e where res: "uploadEditedVersion now r (Some f) db = (Inr p', save p' db)"
    and p': "p' = p\<lparr>editedVersions := editedVersions p @ [v], status := ''completed'',
           progress := 100, timeline := timeline p @ [e]\<rparr>"
    and f: "driveFileId v = file_id f"
    by blast
  have "findOne_assigned (up_projectId r) (up_editorId r) (save p' db) = Some p'"
    using found by (rule findOne_assigned_save) (simp_all add: p')
  with res f show "\<exists>p' v. uploadEditedVersion now r (Some f) db = (Inr p', save p' db) \<and>
            status p' = ''completed'' \<and> progress p' = 100 \<and>
            editedVersions p' = editedVersions p @ [v] \<and> driveFileId v = file_id f \<and>
            findOne_assigned (up_projectId r) (up_editorId r) (save p' db) = Some p'"
    by (intro exI [of _ p'] exI [of _ v]) (simp add: p')
next
  show none: "uploadEditedVersion now r None db
           = (Inl (HttpError 500 ''Error uploading to Google Drive''), db)"
    using upl found by (simp add: uploadEditedVersion_def)
  show "isl (fst (uploadEditedVersion now r d db)) \<longleftrightarrow> d = None"
  proof (cases d)
    case None
    with none show ?thesis by simp
  next
    case (Some g)
    from uploadEditedVersion_success [OF upl found, of now g] Some show ?thesis by auto
  qed
qed

theorem uploadEditedVersion_completed_witness:
  "up_file sample_upload_request = Some ''cut.mp4'' \<and>
   findOne_assigned (up_projectId sample_upload_request) (up_editorId sample_upload_request)
     [sample_project\<lparr>status := ''in_progress''\<rparr>]
     = Some (sample_project\<lparr>status := ''in_progress''\<rparr>) \<and>
   ((\<exists>p' v. uploadEditedVersion 10 sample_upload_request (Some sample_drive_file)
        [sample_project\<lparr>status := ''in_progress''\<rparr>]
        = (Inr p', save p' [sample_project\<lparr>status := ''in_progress''\<rparr>]) \<and>
      status p' = ''completed'' \<and> progress p' = 100 \<and>
      editedVersions p' = editedVersions (sample_project\<lparr>status := ''in_progress''\<rparr>) @ [v] \<and>
      driveFileId v = file_id sample_drive_file \<and>
      findOne_assigned (up_projectId sample_upload_request) (up_editorId sample_upload_request)
        (save p' [sample_project\<lparr>status := ''in_progress''\<rparr>]) = Some p') \<and>
    uploadEditedVersion 10 sample_upload_request None [sample_project\<lparr>status := ''in_progress''\<rparr>]
      = (Inl (HttpError 500 ''Error uploading to Google Drive''),
         [sample_project\<lparr>status := ''in_progress''\<rparr>]) \<and>
    (isl (fst (uploadEditedVersion 10 sample_upload_request None
        [sample_project\<lparr>status := ''in_progress''\<rparr>])) \<longleftrightarrow> (None :: drive_file option) = None))"
proof -
  have h1: "up_file sample_upload_request = Some ''cut.mp4''"
    by (simp add: sample_upload_request_def)
  have h2: "findOne_assigned (up_projectId sample_upload_request)
      (up_editorId sample_upload_request) [sample_project\<lparr>status := ''in_progress''\<rparr>]
      = Some (sample_project\<lparr>status := ''in_progress''\<rparr>)"
    by (simp add: sample_upload_request_def sample_project_def findOne_assigned_def)
  show ?thesis
    by (rule conjI [OF h1 conjI [OF h2
          uploadEditedVersion_completed [OF h1 h2, of 10 sample_drive_file None]]])
qed

section \<open>Queries by id after a save\<close>

lemma findById_save:
  assumes "findById pid db = Some p" and "proj_id p' = proj_id p"
  shows "findById pid (save p' db) = Some p'"
proof -
  from assms(1) have "proj_id p = pid"
    unfolding findById_def by (rule find_Some_P)
  with assms show ?thesis
    unfolding findById_def by (intro find_save) auto
qed

section \<open>Editor status update\<close>

text \<open>
  C3, as the claim states it, fails: the controller checks the requested status only, so
  an update is accepted from a source status outside \<open>assigned\<close>, \<open>reassigned\<close>,
  \<open>in_progress\<close>, \<open>revision_in_progress\<close>. Here the assigned editor moves a
  \<open>delivered\<close> project to \<open>in_progress\<close>; the request is accepted and the project is
  written with the new status and a timeline entry.
\<close>

theorem updateProjectStatus_source_counterexample:
  "status (sample_project\<lparr>status := ''delivered''\<rparr>)
     \<notin> set [''assigned'', ''reassigned'', ''in_progress'', ''revision_in_progress''] \<and>
   updateProjectStatus 10 sample_status_update_request [sample_project\<lparr>status := ''delivered''\<rparr>]
     = (Inr (sample_project\<lparr>status := ''in_progress'', progress := 50,
               timeline := [\<lparr>action = ''Status updated from delivered to in_progress'',
                             user = Some ''e1'', timestamp = 10,
                             entry_notes = ''Progress: 50%''\<rparr>]\<rparr>),
        [sample_project\<lparr>status := ''in_progress'', progress := 50,
               timeline := [\<lparr>action = ''Status updated from delivered to in_progress'',
                             user = Some ''e1'', timestamp = 10,
                             entry_notes = ''Progress: 50%''\<rparr>]\<rparr>])"
  by (simp add: updateProjectStatus_def updateStatusValidation_def findOne_assigned_def
      addTimelineEntry_def save_def str_or_def number_toString_def digit_char_def Let_def
      sample_project_def sample_status_update_request_def)

text \<open>
  C3, amended. A status update is rejected, with the collection unchanged, when the
  requested status is not one of \<open>assigned\<close>, \<open>in_progress\<close>, \<open>completed\<close>,
  \<open>revision_in_progress\<close>, and when no project with the given id is assigned to the
  requesting editor. A request with one of these four target statuses (and valid other
  fields) on a project assigned to the requesting editor is accepted whatever the
  project's current status is: the project is written with the requested status and one
  more timeline entry.
\<close>

theorem updateProjectStatus_accepts:
  "(su_status r \<notin> set [''assigned'', ''in_progress'', ''completed'', ''revision_in_progress''] \<longrightarrow>
      isl (fst (updateProjectStatus now r db)) \<and> snd (updateProjectStatus now r db) = db) \<and>
   (findOne_assigned (su_projectId r) (su_editorId r) db = None \<longrightarrow>
      isl (fst (updateProjectStatus now r db)) \<and> snd (updateProjectStatus now r db) = db) \<and>
   (su_status r \<in> set [''assigned'', ''in_progress'', ''completed'', ''revision_in_progress''] \<and>
    su_other_fields_valid r \<and>
    findOne_assigned (su_projectId r) (su_editorId r) db = Some p \<longrightarrow>
      (\<exists>p' e. updateProjectStatus now r db = (Inr p', save p' db) \<and>
         findOne_assigned (su_projectId r) (su_editorId r) (save p' db) = Some p' \<and>
         status p' = su_status r \<and> timeline p' = timeline p @ [e]))"
proof (intro conjI impI)
  assume "su_status r \<notin> set [''assigned'', ''in_progress'', ''completed'', ''revision_in_progress'']"
  then have "\<not> updateStatusValidation r" by (simp add: updateStatusValidation_def)
  then have "updateProjectStatus now r db = (Inl (HttpError 400 ''Validation failed''), db)"
    unfolding updateProjectStatus_def by (simp only: if_True simp_thms)
  then show "isl (fst (updateProjectStatus now r db))"
    and "snd (updateProjectStatus now r db) = db" by simp_all
next
  assume none: "findOne_assigned (su_projectId r) (su_editorId r) db = None"
  have "updateProjectStatus now r db = (Inl (HttpError 400 ''Validation failed''), db) \<or>
        updateProjectStatus now r db
          = (Inl (HttpError 404 ''Project not found or not assigned to you''), db)"
    unfolding updateProjectStatus_def
    by (cases "updateStatusValidation r")
       (simp_all only: none if_True if_False not_True_eq_False not_False_eq_True option.case simp_thms)
  then show "isl (fst (updateProjectStatus now r db))"
    and "snd (updateProjectStatus now r db) = db" by auto
next
  assume a: "su_status r \<in> set [''assigned'', ''in_progress'', ''completed'', ''revision_in_progress''] \<and>
    su_other_fields_valid r \<and>
    findOne_assigned (su_projectId r) (su_editorId r) db = Some p"
  then have val: "updateStatusValidation r" by (simp add: updateStatusValidation_def)
  from a have found: "findOne_assigned (su_projectId r) (su_editorId r) db = Some p" by simp
  from updateProjectStatus_success [OF val found, of now]
  obtain p' e where res: "updateProjectStatus now r db = (Inr p', save p' db)"
    and p': "p' = p\<lparr>status := su_status r,
           progress := (case su_progress r of None \<Rightarrow> progress p | Some g \<Rightarrow> max 0 (min 100 g)),
           timeline := timeline p @ [e]\<rparr>"
    by blast
  have stored: "findOne_assigned (su_projectId r) (su_editorId r) (save p' db) = Some p'"
    using found by (rule findOne_assigned_save) (simp_all add: p')
  show "\<exists>p' e. updateProjectStatus now r db = (Inr p', save p' db) \<and>
         findOne_assigned (su_projectId r) (su_editorId r) (save p' db) = Some p' \<and>
         status p' = su_status r \<and> timeline p' = timeline p @ [e]"
    by (intro exI [of _ p'] exI [of _ e] conjI res stored) (simp_all add: p')
qed

theorem updateProjectStatus_accepts_witness:
  "su_status sample_status_update_request
     \<in> set [''assigned'', ''in_progress'', ''completed'', ''revision_in_progress''] \<and>
   su_other_fields_valid sample_status_update_request \<and>
   findOne_assigned (su_projectId sample_status_update_request)
     (su_editorId sample_status_update_request) [sample_project\<lparr>status := ''revision_requested''\<rparr>]
     = Some (sample_project\<lparr>status := ''revision_requested''\<rparr>) \<and>
   (\<exists>p' e. updateProjectStatus 10 sample_status_update_request
               [sample_project\<lparr>status := ''revision_requested''\<rparr>]
             = (Inr p', save p' [sample_project\<lparr>status := ''revision_requested''\<rparr>]) \<and>
           status p' = ''in_progress'' \<and>
           timeline p' = timeline (sample_project\<lparr>status := ''revision_requested''\<rparr>) @ [e]) \<and>
   su_status (sample_status_update_request\<lparr>su_status := ''delivered''\<rparr>)
     \<notin> set [''assigned'', ''in_progress'', ''completed'', ''revision_in_progress''] \<and>
   isl (fst (updateProjectStatus 10 (sample_status_update_request\<lparr>su_status := ''delivered''\<rparr>)
               [sample_project])) \<and>
   snd (updateProjectStatus 10 (sample_status_update_request\<lparr>su_status := ''delivered''\<rparr>)
               [sample_project]) = [sample_project] \<and>
   findOne_assigned (su_projectId (sample_status_update_request\<lparr>su_editorId := ''e2''\<rparr>))
     (su_editorId (sample_status_update_request\<lparr>su_editorId := ''e2''\<rparr>)) [sample_project] = None \<and>
   isl (fst (updateProjectStatus 10 (sample_status_update_request\<lparr>su_editorId := ''e2''\<rparr>)
               [sample_project])) \<and>
   snd (updateProjectStatus 10 (sample_status_update_request\<lparr>su_editorId := ''e2''\<rparr>)
               [sample_project]) = [sample_project]"
proof -
  let ?p = "sample_project\<lparr>status := ''revision_requested''\<rparr>"
  let ?r = "sample_status_update_request"
  let ?rd = "sample_status_update_request\<lparr>su_status := ''delivered''\<rparr>"
  let ?re = "sample_status_update_request\<lparr>su_editorId := ''e2''\<rparr>"
  have t: "su_status ?r \<in> set [''assigned'', ''in_progress'', ''completed'', ''revision_in_progress'']"
    by (simp add: sample_status_update_request_def)
  have o: "su_other_fields_valid ?r" by (simp add: sample_status_update_request_def)
  have f: "findOne_assigned (su_projectId ?r) (su_editorId ?r) [?p] = Some ?p"
    by (simp add: findOne_assigned_def sample_status_update_request_def sample_project_def)
  have st: "su_status ?r = ''in_progress''" by (simp add: sample_status_update_request_def)
  have nt: "su_status ?rd \<notin> set [''assigned'', ''in_progress'', ''completed'', ''revision_in_progress'']"
    by simp
  have nf: "findOne_assigned (su_projectId ?re) (su_editorId ?re) [sample_project] = None"
    by (simp add: findOne_assigned_def sample_status_update_request_def sample_project_def)
  have c1: "\<exists>p' e. updateProjectStatus 10 ?r [?p] = (Inr p', save p' [?p]) \<and>
           status p' = ''in_progress'' \<and> timeline p' = timeline ?p @ [e]"
    using updateProjectStatus_accepts [of ?r 10 "[?p]" ?p] t o f st by metis
  have c2: "isl (fst (updateProjectStatus 10 ?rd [sample_project])) \<and>
      snd (updateProjectStatus 10 ?rd [sample_project]) = [sample_project]"
    using updateProjectStatus_accepts [of ?rd 10 "[sample_project]" sample_project] nt by blast
  have c3: "isl (fst (updateProjectStatus 10 ?re [sample_project])) \<and>
      snd (updateProjectStatus 10 ?re [sample_project]) = [sample_project]"
    using updateProjectStatus_accepts [of ?re 10 "[sample_project]" sample_project] nf by blast
  show ?thesis
    by (intro conjI t o f c1 nt nf c2 [THEN conjunct1] c2 [THEN conjunct2]
        c3 [THEN conjunct1] c3 [THEN conjunct2])
qed

section \<open>The recorded writes of the editor operations\<close>



lemma updateProjectStatus_logged_success:
  assumes "updateStatusValidation r"
    and "findOne_assigned (su_projectId r) (su_editorId r) db = Some p"
  shows "\<exists>p' e. updateProjectStatus_logged now r db = (Inr p', save p' db, [p']) \<and>
     p' = p\<lparr>status := su_status r,
           progress := (case su_progress r of None \<Rightarrow> progress p | Some g \<Rightarrow> max 0 (min 100 g)),
           timeline := timeline p @ [e]\<rparr>"
proof (cases "su_progress r")
  case None
  with assms show ?thesis
    apply (simp add: updateProjectStatus_logged_def updateStatusValidation_def
        addTimelineEntry_logged_def save_logged_def Let_def)
    apply (intro exI)
    apply (rule refl)
    done
next
  case (Some g)
  with assms show ?thesis
    apply (simp add: updateProjectStatus_logged_def updateStatusValidation_def
        addTimelineEntry_logged_def save_logged_def Let_def)
    apply (intro exI)
    apply (rule refl)
    done
qed

lemma uploadEditedVersion_logged_success:
  assumes "up_file r = Some name"
    and "findOne_assigned (up_projectId r) (up_editorId r) db = Some p"
  shows "\<exists>p' v e. uploadEditedVersion_logged now r (Some f) db = (Inr p', save p' db, [p']) \<and>
     p' = p\<lparr>editedVersions := editedVersions p @ [v], status := ''completed'', progress := 100,
           timeline := timeline p @ [e]\<rparr>"
  using assms
  apply (simp add: uploadEditedVersion_logged_def addTimelineEntry_logged_def save_logged_def Let_def)
  apply (intro exI)
  apply (rule refl)
  done

section \<open>Client feedback\<close>

text \<open>
  A flag that passed \<open>isBoolean()\<close> is always cast by the schema, so a validated
  feedback on a project that is ready for it never ends in the cast error.
\<close>

lemma castBoolean_validated:
  "optional_isBoolean v \<Longrightarrow> \<exists>b. castBoolean v = Some b"
  by (cases v) (auto simp: optional_isBoolean_def)

lemma castBoolean_or_false:
  "optional_isBoolean v \<Longrightarrow>
   \<exists>b. castBoolean (if truthy v then v else JBool False) = Some (Some b)"
  by (cases v) (auto simp: optional_isBoolean_def)

lemma submitFeedback_logged_rejected:
  assumes "feedbackValidation r"
    and "findOne_publicId (fb_publicId r) db = Some p"
    and "status p \<notin> set [''approved'', ''completed'']"
  shows "submitFeedback_logged now r db
    = (Inl (HttpError 400 ''Project is not ready for feedback''), db, [])"
  unfolding submitFeedback_logged_def
  by (simp only: assms if_True if_False not_True_eq_False not_False_eq_True option.case simp_thms)

lemma submitFeedback_logged_accepted:
  assumes val: "feedbackValidation r"
    and found: "findOne_publicId (fb_publicId r) db = Some p"
    and ready: "status p \<in> set [''approved'', ''completed'']"
  shows "\<exists>p' f e. submitFeedback_logged now r db = (Inr p', save p' db, [p', p']) \<and>
     p' = p\<lparr>clientFeedback := clientFeedback p @ [f],
           status := (if fb_status r = ''approved'' \<and> truthy (fb_satisfied r)
                        then ''delivered''
                        else if truthy (fb_reEditRequested r) then ''client_reedit''
                        else ''revision_requested''),
           timeline := timeline p @ [e]\<rparr> \<and>
     castBoolean (fb_satisfied r) = Some (satisfied f) \<and>
     castBoolean (if truthy (fb_reEditRequested r) then fb_reEditRequested r else JBool False)
       = Some (Some (reEditRequested f))"
proof -
  have st: "fb_status r = ''approved'' \<or> fb_status r = ''revision_requested''"
    using val by (auto simp: feedbackValidation_def)
  have notrej: "\<not> (status p \<notin> set [''approved'', ''completed''])" using ready by blast
  from val obtain sat where sat: "castBoolean (fb_satisfied r) = Some sat"
    using castBoolean_validated [of "fb_satisfied r"] by (auto simp: feedbackValidation_def)
  from val obtain re where re: "castBoolean (if truthy (fb_reEditRequested r)
      then fb_reEditRequested r else JBool False) = Some (Some re)"
    using castBoolean_or_false [of "fb_reEditRequested r"] by (auto simp: feedbackValidation_def)
  consider (deliver) "fb_status r = ''approved'' \<and> truthy (fb_satisfied r)"
    | (reedit) "\<not> (fb_status r = ''approved'' \<and> truthy (fb_satisfied r))"
        "truthy (fb_reEditRequested r)"
    | (revise) "\<not> (fb_status r = ''approved'' \<and> truthy (fb_satisfied r))"
        "\<not> truthy (fb_reEditRequested r)"
    by blast
  then show ?thesis
  proof cases
    case deliver
    show ?thesis
      unfolding submitFeedback_logged_def
      apply (simp only: val found notrej sat re deliver if_False if_True not_True_eq_False
          not_False_eq_True option.case prod.case simp_thms)
      apply (simp only: addTimelineEntry_logged_def save_logged_def Let_def fst_conv snd_conv)
      apply (simp add: save_save)
      apply (intro exI conjI)
        apply (rule refl)
       apply simp
      apply simp
      done
  next
    case reedit
    with st have br: "fb_status r = ''revision_requested'' \<or> \<not> truthy (fb_satisfied r)"
      by auto
    have re': "castBoolean (fb_reEditRequested r) = Some (Some re)"
      using re reedit(2) by simp
    show ?thesis
      unfolding submitFeedback_logged_def
      apply (simp only: val found notrej sat re' reedit br if_False if_True not_True_eq_False
          not_False_eq_True option.case prod.case simp_thms)
      apply (simp only: addTimelineEntry_logged_def save_logged_def Let_def fst_conv snd_conv)
      apply (simp add: save_save)
      apply (intro exI conjI)
        apply (rule refl)
       apply simp
      apply simp
      done
  next
    case revise
    with st have br: "fb_status r = ''revision_requested'' \<or> \<not> truthy (fb_satisfied r)"
      by auto
    have re': "castBoolean (JBool False) = Some (Some re)"
      using re revise(2) by (simp only: if_False)
    show ?thesis
      unfolding submitFeedback_logged_def
      apply (simp only: val found notrej sat re' revise br if_False if_True not_True_eq_False
          not_False_eq_True option.case prod.case simp_thms)
      apply (simp only: addTimelineEntry_logged_def save_logged_def Let_def fst_conv snd_conv)
      apply (simp add: save_save)
      apply (intro exI conjI)
        apply (rule refl)
       apply simp
      apply simp
      done
  qed
qed

text \<open>
  When both flags arrive as JSON booleans, or not at all, the status written is the one
  the transition table gives: \<open>delivered\<close> for an approval with \<open>satisfied\<close> true,
  otherwise \<open>client_reedit\<close> with \<open>reEditRequested\<close> true and \<open>revision_requested\<close>
  without it.
\<close>

lemma submitFeedback_boolean_flags:
  assumes val: "feedbackValidation r"
    and found: "findOne_publicId (fb_publicId r) db = Some p"
    and ready: "status p \<in> set [''approved'', ''completed'']"
    and sat: "fb_satisfied r \<in> {JUndefined, JBool True, JBool False}"
    and re: "fb_reEditRequested r \<in> {JUndefined, JBool True, JBool False}"
  shows "\<exists>p'. submitFeedback now r db = (Inr p', save p' db) \<and>
     status p' = (if fb_status r = ''approved'' \<and> fb_satisfied r = JBool True then ''delivered''
                  else if fb_reEditRequested r = JBool True then ''client_reedit''
                  else ''revision_requested'')"
proof -
  from submitFeedback_logged_accepted [OF val found ready, of now]
  obtain p' f e where res: "submitFeedback_logged now r db = (Inr p', save p' db, [p', p'])"
    and p': "p' = p\<lparr>clientFeedback := clientFeedback p @ [f],
           status := (if fb_status r = ''approved'' \<and> truthy (fb_satisfied r)
                        then ''delivered''
                        else if truthy (fb_reEditRequested r) then ''client_reedit''
                        else ''revision_requested''),
           timeline := timeline p @ [e]\<rparr>"
    by blast
  have t1: "truthy (fb_satisfied r) = (fb_satisfied r = JBool True)" using sat by auto
  have t2: "truthy (fb_reEditRequested r) = (fb_reEditRequested r = JBool True)" using re by auto
  show ?thesis
    by (rule exI [of _ p']) (simp add: submitFeedback_def res p' t1 t2)
qed

text \<open>
  C1 does not hold for every submission that passes validation. The chain accepts the
  string \<open>false\<close> for \<open>reEditRequested\<close> and does not convert it; the handler tests
  the value as it arrived, and a non-empty string is truthy. A feedback with status
  \<open>revision_requested\<close> and \<open>reEditRequested\<close> \<open>'false'\<close> on an approved project is
  accepted, the feedback entry is stored with \<open>reEditRequested\<close> false, and the
  project becomes \<open>client_reedit\<close>, where C1 gives \<open>revision_requested\<close>.
\<close>

theorem submitFeedback_reEditRequested_unconverted:
  "feedbackValidation (sample_feedback_request\<lparr>fb_status := ''revision_requested'',
      fb_satisfied := JUndefined, fb_reEditRequested := JStr ''false''\<rparr>) \<and>
   status (sample_project\<lparr>status := ''approved''\<rparr>) \<in> set [''approved'', ''completed''] \<and>
   submitFeedback 10
     (sample_feedback_request\<lparr>fb_status := ''revision_requested'',
        fb_satisfied := JUndefined, fb_reEditRequested := JStr ''false''\<rparr>)
     [sample_project\<lparr>status := ''approved''\<rparr>]
     = (Inr (sample_project\<lparr>
               clientFeedback := [\<lparr>message = ''Looks good'', feedback_timestamp = 10,
                  feedback_version = 1, feedback_status = ''revision_requested'',
                  rating = Some 5, satisfied = None, reEditRequested = False,
                  reEditComments = None\<rparr>],
               status := ''client_reedit'',
               timeline := [\<lparr>action = ''Client requested re-edit'', user = None,
                             timestamp = 10, entry_notes = ''Looks good''\<rparr>]\<rparr>),
        [sample_project\<lparr>
               clientFeedback := [\<lparr>message = ''Looks good'', feedback_timestamp = 10,
                  feedback_version = 1, feedback_status = ''revision_requested'',
                  rating = Some 5, satisfied = None, reEditRequested = False,
                  reEditComments = None\<rparr>],
               status := ''client_reedit'',
               timeline := [\<lparr>action = ''Client requested re-edit'', user = None,
                             timestamp = 10, entry_notes = ''Looks good''\<rparr>]\<rparr>])"
  by (simp add: submitFeedback_def submitFeedback_logged_def feedbackValidation_def
      optional_isBoolean_def findOne_publicId_def addTimelineEntry_logged_def save_logged_def
      save_def str_or_def num_or_def getLatestVersion_def Let_def
      sample_project_def sample_feedback_request_def)

text \<open>
  C10 does not hold for every submission that passes validation, for the same reason.
  A feedback with status \<open>approved\<close> and \<open>satisfied\<close> \<open>'false'\<close> on an approved
  project is accepted, the feedback entry is stored with \<open>satisfied\<close> false, and the
  project becomes \<open>delivered\<close>, where C10 says it never does.
\<close>

theorem submitFeedback_satisfied_unconverted:
  "feedbackValidation (sample_feedback_request\<lparr>fb_satisfied := JStr ''false''\<rparr>) \<and>
   status (sample_project\<lparr>status := ''approved''\<rparr>) \<in> set [''approved'', ''completed''] \<and>
   fb_status (sample_feedback_request\<lparr>fb_satisfied := JStr ''false''\<rparr>) = ''approved'' \<and>
   submitFeedback 10 (sample_feedback_request\<lparr>fb_satisfied := JStr ''false''\<rparr>)
     [sample_project\<lparr>status := ''approved''\<rparr>]
     = (Inr (sample_project\<lparr>
               clientFeedback := [\<lparr>message = ''Looks good'', feedback_timestamp = 10,
                  feedback_version = 1, feedback_status = ''approved'',
                  rating = Some 5, satisfied = Some False, reEditRequested = False,
                  reEditComments = None\<rparr>],
               status := ''delivered'',
               timeline := [\<lparr>action = ''Client approved the project'', user = None,
                             timestamp = 10, entry_notes = ''Looks good''\<rparr>]\<rparr>),
        [sample_project\<lparr>
               clientFeedback := [\<lparr>message = ''Looks good'', feedback_timestamp = 10,
                  feedback_version = 1, feedback_status = ''approved'',
                  rating = Some 5, satisfied = Some False, reEditRequested = False,
                  reEditComments = None\<rparr>],
               status := ''delivered'',
               timeline := [\<lparr>action = ''Client approved the project'', user = None,
                             timestamp = 10, entry_notes = ''Looks good''\<rparr>]\<rparr>])"
  by (simp add: submitFeedback_def submitFeedback_logged_def feedbackValidation_def
      optional_isBoolean_def findOne_publicId_def addTimelineEntry_logged_def save_logged_def
      save_def str_or_def num_or_def getLatestVersion_def Let_def
      sample_project_def sample_feedback_request_def)

section \<open>Admin review\<close>

lemma reviewProject_logged_rejected:
  assumes "reviewProjectValidation r"
    and "findById (ObjectId_of (rv_projectId r)) db = Some p"
    and "status p \<noteq> ''completed''"
  shows "reviewProject_logged now strictPopulate r db
    = (Inl (HttpError 400 ''Project is not ready for review''), db, [])"
  unfolding reviewProject_logged_def
  by (simp only: assms if_True if_False not_True_eq_False not_False_eq_True option.case simp_thms)

lemma reviewProject_logged_writes:
  assumes val: "reviewProjectValidation r"
    and found: "findById (ObjectId_of (rv_projectId r)) db = Some p"
    and completed: "status p = ''completed''"
  shows "\<exists>p' c e. snd (reviewProject_logged now strictPopulate r db) = (save p' db, [p', p']) \<and>
     p' = p\<lparr>status := (if rv_action r = ''approve'' then ''approved''
                        else if rv_action r = ''request_revision'' then ''revision_requested''
                        else status p),
           adminComments := adminComments p @ [c],
           timeline := timeline p @ [e]\<rparr>"
proof -
  have nc: "\<not> status p \<noteq> ''completed''" using completed by simp
  from val consider "rv_action r = ''approve''" | "rv_action r = ''request_revision''"
    | "rv_action r = ''reassign''"
    by (auto simp: reviewProjectValidation_def)
  then show ?thesis
  proof cases
    case 1
    show ?thesis
      unfolding reviewProject_logged_def
      apply (simp only: val found nc 1 if_False if_True not_True_eq_False not_False_eq_True
          option.case simp_thms)
      apply (simp only: Let_def addTimelineEntry_logged_def save_logged_def fst_conv snd_conv)
      apply (simp add: save_save)
      apply (intro exI conjI; rule refl)
      done
  next
    case 2
    show ?thesis
      unfolding reviewProject_logged_def
      apply (simp only: val found nc 2 if_False if_True not_True_eq_False not_False_eq_True
          option.case simp_thms)
      apply (simp only: Let_def addTimelineEntry_logged_def save_logged_def fst_conv snd_conv)
      apply (simp add: save_save)
      apply (intro exI conjI; rule refl)
      done
  next
    case 3
    have same: "p\<lparr>status := ''completed''\<rparr> = p" using completed by simp
    show ?thesis
      unfolding reviewProject_logged_def
      apply (simp only: val found nc 3 if_False if_True not_True_eq_False not_False_eq_True
          option.case simp_thms)
      apply (simp only: Let_def addTimelineEntry_logged_def save_logged_def fst_conv snd_conv)
      apply (simp add: save_save)
      apply (rule exI [of _ "\<lparr>comment = Some (str_or (rv_notes r)
              ''Project marked for reassignment during review''),
            comment_date = now, comment_type = ''review''\<rparr>"])
      apply (rule exI [of _ "\<lparr>action = ''Admin marked project for reassignment during review'',
            user = Some (rv_adminId r), timestamp = now,
            entry_notes = (case rv_notes r of None \<Rightarrow> [] | Some n \<Rightarrow> n)\<rparr>"])
      apply (simp add: same)
      done
  qed
qed

lemma reviewProject_logged_answer:
  assumes val: "reviewProjectValidation r"
    and found: "findById (ObjectId_of (rv_projectId r)) db = Some p"
    and completed: "status p = ''completed''"
  shows "fst (reviewProject_logged now strictPopulate r db)
    = (if strictPopulate then Inl (HttpError 500 ''Error reviewing project'')
       else Inr (findById (ObjectId_of (rv_projectId r))
                  (fst (snd (reviewProject_logged now strictPopulate r db)))))"
proof -
  have nc: "\<not> status p \<noteq> ''completed''" using completed by simp
  show ?thesis
  proof (cases strictPopulate)
    case True
    show ?thesis
      unfolding reviewProject_logged_def
      by (simp only: val found nc True if_False if_True not_True_eq_False not_False_eq_True
          option.case simp_thms Let_def fst_conv snd_conv)
  next
    case False
    show ?thesis
      unfolding reviewProject_logged_def
      by (simp only: val found nc False if_False if_True not_True_eq_False not_False_eq_True
          option.case simp_thms Let_def fst_conv snd_conv)
  qed
qed

lemma reviewProject_logged_accepted:
  assumes val: "reviewProjectValidation r"
    and found: "findById (ObjectId_of (rv_projectId r)) db = Some p"
    and completed: "status p = ''completed''"
  shows "\<exists>p' c e. reviewProject_logged now strictPopulate r db
       = ((if strictPopulate then Inl (HttpError 500 ''Error reviewing project'')
           else Inr (Some p')), save p' db, [p', p']) \<and>
     p' = p\<lparr>status := (if rv_action r = ''approve'' then ''approved''
                        else if rv_action r = ''request_revision'' then ''revision_requested''
                        else status p),
           adminComments := adminComments p @ [c],
           timeline := timeline p @ [e]\<rparr>"
proof -
  from reviewProject_logged_writes [OF val found completed, of now strictPopulate]
  obtain p' c e where w: "snd (reviewProject_logged now strictPopulate r db) = (save p' db, [p', p'])"
    and p': "p' = p\<lparr>status := (if rv_action r = ''approve'' then ''approved''
                        else if rv_action r = ''request_revision'' then ''revision_requested''
                        else status p),
           adminComments := adminComments p @ [c],
           timeline := timeline p @ [e]\<rparr>"
    by blast
  have stored: "findById (ObjectId_of (rv_projectId r)) (save p' db) = Some p'"
    using found by (rule findById_save) (simp add: p')
  have d: "fst (snd (reviewProject_logged now strictPopulate r db)) = save p' db"
    using w by simp
  have a: "fst (reviewProject_logged now strictPopulate r db)
    = (if strictPopulate then Inl (HttpError 500 ''Error reviewing project'') else Inr (Some p'))"
    using reviewProject_logged_answer [OF val found completed, of now strictPopulate]
    by (simp only: d stored)
  have "reviewProject_logged now strictPopulate r db
       = ((if strictPopulate then Inl (HttpError 500 ''Error reviewing project'')
           else Inr (Some p')), save p' db, [p', p'])"
    using a w by (simp add: prod_eq_iff)
  with p' show ?thesis by blast
qed

text \<open>
  An answer without an error always carries a project: the second read finds the document
  just saved.
\<close>

lemma reviewProject_answers_with_project:
  "fst (reviewProject_logged now strictPopulate r db) \<noteq> Inr None"
proof (cases "reviewProjectValidation r")
  case False
  then show ?thesis by (simp add: reviewProject_logged_def)
next
  case val: True
  show ?thesis
  proof (cases "findById (ObjectId_of (rv_projectId r)) db")
    case None
    with val show ?thesis by (simp add: reviewProject_logged_def)
  next
    case (Some p)
    show ?thesis
    proof (cases "status p = ''completed''")
      case True
      from reviewProject_logged_accepted [OF val Some True, of now strictPopulate]
      show ?thesis by (auto split: if_splits)
    next
      case False
      from reviewProject_logged_rejected [OF val Some False, of now strictPopulate]
      show ?thesis by simp
    qed
  qed
qed

lemma reviewProject_rejected:
  assumes "reviewProjectValidation r"
    and "findById (ObjectId_of (rv_projectId r)) db = Some p"
    and "status p \<noteq> ''completed''"
  shows "reviewProject now strictPopulate r db
    = (Inl (HttpError 400 ''Project is not ready for review''), db)"
  unfolding reviewProject_def
  by (simp add: reviewProject_logged_rejected [OF assms])

text \<open>
  C2. A review request that passes validation and finds its project fails with the
  invalid-state error (400, not ready for review) and leaves the collection unchanged
  when the project's status is not \<open>completed\<close>. When it is \<open>completed\<close>, the project
  is stored with one more admin comment and one more timeline entry, and with status
  \<open>approved\<close> for action \<open>approve\<close>, \<open>revision_requested\<close> for action
  \<open>request_revision\<close>, and the status it had for action \<open>reassign\<close>; a query by the
  request's id then finds that document. The answer to such a review is built after the
  writes: it carries the stored document, or it is the error 500 when populating the
  path \<open>client\<close> throws; the writes stay in either case.
\<close>

theorem reviewProject_transitions:
  assumes val: "reviewProjectValidation r"
    and found: "findById (ObjectId_of (rv_projectId r)) db = Some p"
  shows "(status p \<noteq> ''completed'' \<longrightarrow>
            reviewProject now strictPopulate r db
              = (Inl (HttpError 400 ''Project is not ready for review''), db)) \<and>
         (status p = ''completed'' \<longrightarrow>
            (\<exists>p' c e. snd (reviewProject now strictPopulate r db) = save p' db \<and>
               findById (ObjectId_of (rv_projectId r)) (save p' db) = Some p' \<and>
               adminComments p' = adminComments p @ [c] \<and>
               timeline p' = timeline p @ [e] \<and>
               (rv_action r = ''approve'' \<longrightarrow> status p' = ''approved'') \<and>
               (rv_action r = ''request_revision'' \<longrightarrow> status p' = ''revision_requested'') \<and>
               (rv_action r = ''reassign'' \<longrightarrow> status p' = status p) \<and>
               fst (reviewProject now strictPopulate r db)
                 = (if strictPopulate then Inl (HttpError 500 ''Error reviewing project'')
                    else Inr (Some p'))))"
proof (intro conjI impI)
  assume "status p \<noteq> ''completed''"
  with val found show "reviewProject now strictPopulate r db
      = (Inl (HttpError 400 ''Project is not ready for review''), db)"
    by (rule reviewProject_rejected)
next
  assume completed: "status p = ''completed''"
  from reviewProject_logged_accepted [OF val found completed, of now strictPopulate]
  obtain p' c e where res: "reviewProject_logged now strictPopulate r db
       = ((if strictPopulate then Inl (HttpError 500 ''Error reviewing project'')
           else Inr (Some p')), save p' db, [p', p'])"
    and p': "p' = p\<lparr>status := (if rv_action r = ''approve'' then ''approved''
                        else if rv_action r = ''request_revision'' then ''revision_requested''
                        else status p),
           adminComments := adminComments p @ [c],
           timeline := timeline p @ [e]\<rparr>"
    by blast
  have stored: "findById (ObjectId_of (rv_projectId r)) (save p' db) = Some p'"
    using found by (rule findById_save) (simp add: p')
  show "\<exists>p' c e. snd (reviewProject now strictPopulate r db) = save p' db \<and>
               findById (ObjectId_of (rv_projectId r)) (save p' db) = Some p' \<and>
               adminComments p' = adminComments p @ [c] \<and>
               timeline p' = timeline p @ [e] \<and>
               (rv_action r = ''approve'' \<longrightarrow> status p' = ''approved'') \<and>
               (rv_action r = ''request_revision'' \<longrightarrow> status p' = ''revision_requested'') \<and>
               (rv_action r = ''reassign'' \<longrightarrow> status p' = status p) \<and>
               fst (reviewProject now strictPopulate r db)
                 = (if strictPopulate then Inl (HttpError 500 ''Error reviewing project'')
                    else Inr (Some p'))"
  proof (intro exI [of _ p'] exI [of _ c] exI [of _ e] conjI impI)
    show "snd (reviewProject now strictPopulate r db) = save p' db"
      by (simp add: reviewProject_def res)
    show "findById (ObjectId_of (rv_projectId r)) (save p' db) = Some p'" by (rule stored)
    show "adminComments p' = adminComments p @ [c]" by (simp add: p')
    show "timeline p' = timeline p @ [e]" by (simp add: p')
    show "status p' = ''approved''" if "rv_action r = ''approve''"
      using that by (simp add: p')
    show "status p' = ''revision_requested''" if "rv_action r = ''request_revision''"
      using that by (simp add: p')
    show "status p' = status p" if "rv_action r = ''reassign''"
      using that by (simp add: p')
    show "fst (reviewProject now strictPopulate r db)
                 = (if strictPopulate then Inl (HttpError 500 ''Error reviewing project'')
                    else Inr (Some p'))"
      by (simp add: reviewProject_def res)
  qed
qed

theorem reviewProject_transitions_witness:
  "reviewProjectValidation sample_review_request \<and>
   findById (ObjectId_of (rv_projectId sample_review_request)) [sample_project]
     = Some sample_project \<and>
   status sample_project = ''completed'' \<and>
   rv_action sample_review_request = ''approve'' \<and>
   (\<exists>p' c e. reviewProject 10 False sample_review_request [sample_project]
        = (Inr (Some p'), save p' [sample_project]) \<and>
      adminComments p' = adminComments sample_project @ [c] \<and>
      timeline p' = timeline sample_project @ [e] \<and>
      status p' = ''approved'') \<and>
   (\<exists>p' c e. reviewProject 10 True sample_review_request [sample_project]
        = (Inl (HttpError 500 ''Error reviewing project''), save p' [sample_project]) \<and>
      findById (ObjectId_of (rv_projectId sample_review_request)) (save p' [sample_project])
        = Some p' \<and>
      adminComments p' = adminComments sample_project @ [c] \<and>
      timeline p' = timeline sample_project @ [e] \<and>
      status p' = ''approved'') \<and>
   reviewProjectValidation (sample_review_request\<lparr>rv_action := ''request_revision''\<rparr>) \<and>
   (\<exists>p'. reviewProject 10 False (sample_review_request\<lparr>rv_action := ''request_revision''\<rparr>)
        [sample_project] = (Inr (Some p'), save p' [sample_project]) \<and>
      status p' = ''revision_requested'') \<and>
   reviewProjectValidation (sample_review_request\<lparr>rv_action := ''reassign''\<rparr>) \<and>
   (\<exists>p'. reviewProject 10 False (sample_review_request\<lparr>rv_action := ''reassign''\<rparr>)
        [sample_project] = (Inr (Some p'), save p' [sample_project]) \<and>
      status p' = ''completed'') \<and>
   findById (ObjectId_of (rv_projectId sample_review_request))
       [sample_project\<lparr>status := ''in_progress''\<rparr>]
     = Some (sample_project\<lparr>status := ''in_progress''\<rparr>) \<and>
   status (sample_project\<lparr>status := ''in_progress''\<rparr>) \<noteq> ''completed'' \<and>
   reviewProject 10 True sample_review_request [sample_project\<lparr>status := ''in_progress''\<rparr>]
     = (Inl (HttpError 400 ''Project is not ready for review''),
        [sample_project\<lparr>status := ''in_progress''\<rparr>])"
proof -
  let ?pi = "sample_project\<lparr>status := ''in_progress''\<rparr>"
  let ?r1 = "sample_review_request"
  let ?r2 = "sample_review_request\<lparr>rv_action := ''request_revision''\<rparr>"
  let ?r3 = "sample_review_request\<lparr>rv_action := ''reassign''\<rparr>"
  have v1: "reviewProjectValidation ?r1"
    by (simp add: reviewProjectValidation_def sample_review_request_def)
  have v2: "reviewProjectValidation ?r2"
    by (simp add: reviewProjectValidation_def sample_review_request_def)
  have v3: "reviewProjectValidation ?r3"
    by (simp add: reviewProjectValidation_def sample_review_request_def)
  have f1: "findById (ObjectId_of (rv_projectId ?r1)) [sample_project] = Some sample_project"
    by (simp add: findById_def ObjectId_of_def lower_hex_def sample_review_request_def
        sample_project_def)
  have f2: "findById (ObjectId_of (rv_projectId ?r2)) [sample_project] = Some sample_project"
    by (simp add: findById_def ObjectId_of_def lower_hex_def sample_review_request_def
        sample_project_def)
  have f3: "findById (ObjectId_of (rv_projectId ?r3)) [sample_project] = Some sample_project"
    by (simp add: findById_def ObjectId_of_def lower_hex_def sample_review_request_def
        sample_project_def)
  have f4: "findById (ObjectId_of (rv_projectId ?r1)) [?pi] = Some ?pi"
    by (simp add: findById_def ObjectId_of_def lower_hex_def sample_review_request_def
        sample_project_def)
  have completed: "status sample_project = ''completed''" by (simp add: sample_project_def)
  have other: "status ?pi \<noteq> ''completed''" by simp
  have a1: "rv_action ?r1 = ''approve''" by (simp add: sample_review_request_def)
  have a2: "rv_action ?r2 = ''request_revision''" by simp
  have a3: "rv_action ?r3 = ''reassign''" by simp
  have c1: "\<exists>p' c e. reviewProject 10 False ?r1 [sample_project]
        = (Inr (Some p'), save p' [sample_project]) \<and>
      adminComments p' = adminComments sample_project @ [c] \<and>
      timeline p' = timeline sample_project @ [e] \<and> status p' = ''approved''"
    using reviewProject_transitions [OF v1 f1, of 10 False] completed a1
    by (simp add: prod_eq_iff) blast
  have c1': "\<exists>p' c e. reviewProject 10 True ?r1 [sample_project]
        = (Inl (HttpError 500 ''Error reviewing project''), save p' [sample_project]) \<and>
      findById (ObjectId_of (rv_projectId ?r1)) (save p' [sample_project]) = Some p' \<and>
      adminComments p' = adminComments sample_project @ [c] \<and>
      timeline p' = timeline sample_project @ [e] \<and> status p' = ''approved''"
    using reviewProject_transitions [OF v1 f1, of 10 True] completed a1
    by (simp add: prod_eq_iff) blast
  have c2: "\<exists>p'. reviewProject 10 False ?r2 [sample_project]
        = (Inr (Some p'), save p' [sample_project]) \<and>
      status p' = ''revision_requested''"
    using reviewProject_transitions [OF v2 f2, of 10 False] completed a2
    by (simp add: prod_eq_iff) blast
  have c3: "\<exists>p'. reviewProject 10 False ?r3 [sample_project]
        = (Inr (Some p'), save p' [sample_project]) \<and>
      status p' = ''completed''"
    using reviewProject_transitions [OF v3 f3, of 10 False] completed a3
    by (simp add: prod_eq_iff) metis
  have c4: "reviewProject 10 True ?r1 [?pi]
     = (Inl (HttpError 400 ''Project is not ready for review''), [?pi])"
    using reviewProject_transitions [OF v1 f4, of 10 True] other by blast
  show ?thesis
    by (intro conjI v1 v2 v3 f1 f4 completed other a1 c1 c1' c2 c3 c4)
qed

section \<open>Assignment and reassignment\<close>

lemma assignProjectToEditor_logged_success:
  assumes "assignProjectValidation r"
    and "findById (ObjectId_of (as_projectId r)) db = Some p"
    and "User_findById (ObjectId_of (as_editorId r)) users = Some editor"
    and "user_role editor = ''editor''"
  shows "\<exists>q p' c e. assignProjectToEditor_logged clock users r db
       = (Inr p', save p' db, [q, p']) \<and>
     q = p\<lparr>assignedEditor := Some (ObjectId_of (as_editorId r)),
           assignedDate := Some (at_assignedDate clock),
           status := (if isActualReassignment users r p then ''reassigned'' else ''assigned''),
           dueDate := (if truthy_str (as_dueDate r) then as_dueDate r else dueDate p),
           adminNotes := (if truthy_str (as_notes r) then as_notes r else adminNotes p),
           editorDeadlineHours := num_or (as_deadlineHours r) 24,
           editorDeadline :=
             Some (at_editorDeadline clock + num_or (as_deadlineHours r) 24 * 60 * 60 * 1000),
           isEditorDeadlineExceeded := False,
           adminComments := (if truthy_str (as_comments r) then adminComments p @ [c]
                             else adminComments p)\<rparr> \<and>
     p' = q\<lparr>timeline := timeline p @ [e]\<rparr>"
proof -
  have role: "\<not> user_role editor \<noteq> ''editor''" using assms(4) by simp
  show ?thesis
    unfolding assignProjectToEditor_logged_def
    apply (simp only: assms(1,2,3) role if_False if_True not_True_eq_False not_False_eq_True
        option.case simp_thms)
    apply (simp only: Let_def addTimelineEntry_logged_def save_logged_def fst_conv snd_conv)
    apply (cases "truthy_str (as_dueDate r)"; cases "truthy_str (as_notes r)";
        cases "truthy_str (as_comments r)")
           apply (simp_all only: if_True if_False)
           apply (simp_all add: save_save)
           apply (intro conjI impI exI; rule refl)+
    done
qed

lemma User_findById_id: "User_findById i users = Some u \<Longrightarrow> user_id u = i"
  unfolding User_findById_def by (rule find_Some_P)

lemma assignProjectToEditor_success:
  assumes "assignProjectValidation r"
    and "findById (ObjectId_of (as_projectId r)) db = Some p"
    and "User_findById (ObjectId_of (as_editorId r)) users = Some editor"
    and "user_role editor = ''editor''"
  shows "\<exists>p' e. assignProjectToEditor clock users r db = (Inr p', save p' db) \<and>
     findById (ObjectId_of (as_projectId r)) (save p' db) = Some p' \<and>
     status p' = (if isActualReassignment users r p then ''reassigned'' else ''assigned'') \<and>
     assignedEditor p' = Some (user_id editor) \<and>
     assignedDate p' = Some (at_assignedDate clock) \<and>
     editorDeadlineHours p' = num_or (as_deadlineHours r) 24 \<and>
     editorDeadline p' = Some (at_editorDeadline clock + editorDeadlineHours p' * 60 * 60 * 1000) \<and>
     \<not> isEditorDeadlineExceeded p' \<and>
     timeline p' = timeline p @ [e]"
proof -
  from assignProjectToEditor_logged_success [OF assms, of clock]
  obtain q p' c e where res: "assignProjectToEditor_logged clock users r db
       = (Inr p', save p' db, [q, p'])"
    and q: "q = p\<lparr>assignedEditor := Some (ObjectId_of (as_editorId r)),
           assignedDate := Some (at_assignedDate clock),
           status := (if isActualReassignment users r p then ''reassigned'' else ''assigned''),
           dueDate := (if truthy_str (as_dueDate r) then as_dueDate r else dueDate p),
           adminNotes := (if truthy_str (as_notes r) then as_notes r else adminNotes p),
           editorDeadlineHours := num_or (as_deadlineHours r) 24,
           editorDeadline :=
             Some (at_editorDeadline clock + num_or (as_deadlineHours r) 24 * 60 * 60 * 1000),
           isEditorDeadlineExceeded := False,
           adminComments := (if truthy_str (as_comments r) then adminComments p @ [c]
                             else adminComments p)\<rparr>"
    and p': "p' = q\<lparr>timeline := timeline p @ [e]\<rparr>"
    by blast
  have stored: "findById (ObjectId_of (as_projectId r)) (save p' db) = Some p'"
    using assms(2) by (rule findById_save) (simp add: p' q)
  have ed: "user_id editor = ObjectId_of (as_editorId r)"
    using assms(3) by (rule User_findById_id)
  show ?thesis
  proof (intro exI [of _ p'] exI [of _ e] conjI)
    show "assignProjectToEditor clock users r db = (Inr p', save p' db)"
      by (simp add: assignProjectToEditor_def res)
    show "findById (ObjectId_of (as_projectId r)) (save p' db) = Some p'" by (rule stored)
    show "status p' = (if isActualReassignment users r p then ''reassigned'' else ''assigned'')"
      by (simp add: p' q)
    show "assignedEditor p' = Some (user_id editor)" by (simp add: p' q ed)
    show "assignedDate p' = Some (at_assignedDate clock)" by (simp add: p' q)
    show "editorDeadlineHours p' = num_or (as_deadlineHours r) 24" by (simp add: p' q)
    show "editorDeadline p'
        = Some (at_editorDeadline clock + editorDeadlineHours p' * 60 * 60 * 1000)"
      by (simp add: p' q)
    show "\<not> isEditorDeadlineExceeded p'" by (simp add: p' q)
    show "timeline p' = timeline p @ [e]" by (simp add: p' q)
  qed
qed

lemma assignProjectToEditor_boolean_flag:
  assumes val: "assignProjectValidation r"
    and found: "findById (ObjectId_of (as_projectId r)) db = Some p"
    and editor: "User_findById (ObjectId_of (as_editorId r)) users = Some editor"
    and role: "user_role editor = ''editor''"
    and flag: "as_isReassignment r \<in> {JUndefined, JBool True, JBool False}"
    and canonical: "ObjectId_of (as_editorId r) = as_editorId r"
  shows "\<exists>p'. assignProjectToEditor clock users r db = (Inr p', save p' db) \<and>
     status p' = (if as_isReassignment r = JBool True \<and>
                     (\<exists>prev. previousEditor users p = Some prev \<and> user_id prev \<noteq> user_id editor)
                  then ''reassigned'' else ''assigned'') \<and>
     assignedDate p' = Some (at_assignedDate clock) \<and>
     editorDeadline p' = Some (at_editorDeadline clock + editorDeadlineHours p' * 60 * 60 * 1000) \<and>
     \<not> isEditorDeadlineExceeded p'"
proof -
  from assignProjectToEditor_success [OF val found editor role, of clock]
  obtain p' e where res: "assignProjectToEditor clock users r db = (Inr p', save p' db)"
    and st: "status p' = (if isActualReassignment users r p then ''reassigned'' else ''assigned'')"
    and rest: "assignedDate p' = Some (at_assignedDate clock)"
      "editorDeadline p' = Some (at_editorDeadline clock + editorDeadlineHours p' * 60 * 60 * 1000)"
      "\<not> isEditorDeadlineExceeded p'"
    by blast
  have ed: "user_id editor = as_editorId r"
    using User_findById_id [OF editor] canonical by simp
  have t: "truthy (as_isReassignment r) = (as_isReassignment r = JBool True)"
    using flag by auto
  have "isActualReassignment users r p \<longleftrightarrow>
      as_isReassignment r = JBool True \<and>
      (\<exists>prev. previousEditor users p = Some prev \<and> user_id prev \<noteq> user_id editor)"
    by (auto simp: isActualReassignment_def t ed split: option.splits)
  with res st rest show ?thesis by (intro exI [of _ p']) simp
qed


text \<open>
  The handler compares the previous editor's id, printed in lower case, with the
  \<open>editorId\<close> string of the body, while the queries cast that string. An id sent in
  upper case therefore finds the same editor and still counts as a different one.
\<close>

lemma assignProjectToEditor_same_editor_other_case:
  "ObjectId_of ''AB12'' = ''ab12'' \<and>
   assignProjectToEditor (one_reading 10)
     [\<lparr>user_id = ''ab12'', user_name = ''Asha'', user_email = ''asha@example.org'',
       user_role = ''editor''\<rparr>]
     (sample_assign_request\<lparr>as_editorId := ''AB12''\<rparr>)
     [sample_project\<lparr>assignedEditor := Some ''ab12''\<rparr>]
     = (Inr (sample_project\<lparr>assignedEditor := Some ''ab12'', assignedDate := Some 10,
               status := ''reassigned'', editorDeadlineHours := 48,
               editorDeadline := Some 172800010, isEditorDeadlineExceeded := False,
               timeline := [\<lparr>action = ''Project reassigned to Asha (from Asha)'',
                             user = Some ''a1'', timestamp = 10, entry_notes = []\<rparr>]\<rparr>),
        [sample_project\<lparr>assignedEditor := Some ''ab12'', assignedDate := Some 10,
               status := ''reassigned'', editorDeadlineHours := 48,
               editorDeadline := Some 172800010, isEditorDeadlineExceeded := False,
               timeline := [\<lparr>action = ''Project reassigned to Asha (from Asha)'',
                             user = Some ''a1'', timestamp = 10, entry_notes = []\<rparr>]\<rparr>])"
  by (simp add: assignProjectToEditor_def assignProjectToEditor_logged_def
      assignProjectValidation_def isActualReassignment_def previousEditor_def
      findById_def User_findById_def ObjectId_of_def lower_hex_def one_reading_def
      addTimelineEntry_logged_def save_logged_def save_def
      truthy_str_def or_str_def num_or_def Let_def
      sample_project_def sample_assign_request_def)

section \<open>Triggers against the transition table\<close>


lemma trigger_rejected:
  assumes "resolves users db t p" and "guard_rejects (status p) t"
  shows "\<exists>err. run_trigger now users t db = (Inl err, db, [])"
proof (cases t)
  case (Review r strictPopulate)
  with assms show ?thesis
    by (simp add: reviewProject_logged_rejected review_answer_def)
next
  case (ClientFeedback r)
  with assms show ?thesis by (simp add: submitFeedback_logged_rejected)
qed (use assms in simp_all)

lemma trigger_accepted:
  assumes res: "resolves users db t p" and ok: "\<not> guard_rejects (status p) t"
  shows "\<exists>p' e ws. run_trigger now users t db =
            ((case t of
                Review r strictPopulate \<Rightarrow>
                  if strictPopulate then Inl (HttpError 500 ''Error reviewing project'')
                  else Inr p'
              | _ \<Rightarrow> Inr p'), save p' db, ws @ [p']) \<and>
           timeline p' = timeline p @ [e] \<and>
           status p' = written_status users t p \<and>
           proj_id p' = proj_id p \<and>
           ((\<exists>r. t = Assign r) \<or> ws = [] \<or> ws = [p']) \<and>
           isEditorDeadlineExceeded p' =
             (case t of Assign r \<Rightarrow> False | _ \<Rightarrow> isEditorDeadlineExceeded p)"
proof (cases t)
  case (Assign r)
  from res Assign obtain editor where
    val: "assignProjectValidation r"
    and found: "findById (ObjectId_of (as_projectId r)) db = Some p"
    and editor: "User_findById (ObjectId_of (as_editorId r)) users = Some editor"
    and role: "user_role editor = ''editor''"
    by (auto split: option.splits)
  from assignProjectToEditor_logged_success [OF val found editor role, of "one_reading now"]
  obtain q p' c e where "assignProjectToEditor_logged (one_reading now) users r db
       = (Inr p', save p' db, [q, p'])"
    and "q = p\<lparr>assignedEditor := Some (ObjectId_of (as_editorId r)),
           assignedDate := Some (at_assignedDate (one_reading now)),
           status := (if isActualReassignment users r p then ''reassigned'' else ''assigned''),
           dueDate := (if truthy_str (as_dueDate r) then as_dueDate r else dueDate p),
           adminNotes := (if truthy_str (as_notes r) then as_notes r else adminNotes p),
           editorDeadlineHours := num_or (as_deadlineHours r) 24,
           editorDeadline :=
             Some (at_editorDeadline (one_reading now)
                   + num_or (as_deadlineHours r) 24 * 60 * 60 * 1000),
           isEditorDeadlineExceeded := False,
           adminComments := (if truthy_str (as_comments r) then adminComments p @ [c]
                             else adminComments p)\<rparr>"
    and "p' = q\<lparr>timeline := timeline p @ [e]\<rparr>"
    by blast
  with Assign show ?thesis
    by (intro exI [of _ p'] exI [of _ e] exI [of _ "[q]"]) simp
next
  case (EditorStatusUpdate r)
  with res have val: "updateStatusValidation r"
    and found: "findOne_assigned (su_projectId r) (su_editorId r) db = Some p" by simp_all
  from updateProjectStatus_logged_success [OF val found, of now]
  obtain p' e where "updateProjectStatus_logged now r db = (Inr p', save p' db, [p'])"
    and "p' = p\<lparr>status := su_status r,
           progress := (case su_progress r of None \<Rightarrow> progress p | Some g \<Rightarrow> max 0 (min 100 g)),
           timeline := timeline p @ [e]\<rparr>"
    by blast
  with EditorStatusUpdate show ?thesis
    by (intro exI [of _ p'] exI [of _ e] exI [of _ "[]"]) simp
next
  case (UploadVersion r d)
  with res obtain name f where upl: "up_file r = Some name"
    and found: "findOne_assigned (up_projectId r) (up_editorId r) db = Some p"
    and d: "d = Some f" by auto
  from uploadEditedVersion_logged_success [OF upl found, of now f]
  obtain p' v e where "uploadEditedVersion_logged now r (Some f) db = (Inr p', save p' db, [p'])"
    and "p' = p\<lparr>editedVersions := editedVersions p @ [v], status := ''completed'',
           progress := 100, timeline := timeline p @ [e]\<rparr>"
    by blast
  with UploadVersion d show ?thesis
    by (intro exI [of _ p'] exI [of _ e] exI [of _ "[]"]) simp
next
  case (Review r strictPopulate)
  with res ok have val: "reviewProjectValidation r"
    and found: "findById (ObjectId_of (rv_projectId r)) db = Some p"
    and completed: "status p = ''completed''" by simp_all
  from reviewProject_logged_accepted [OF val found completed, of now strictPopulate]
  obtain p' c e where "reviewProject_logged now strictPopulate r db
       = ((if strictPopulate then Inl (HttpError 500 ''Error reviewing project'')
           else Inr (Some p')), save p' db, [p', p'])"
    and "p' = p\<lparr>status := (if rv_action r = ''approve'' then ''approved''
                        else if rv_action r = ''request_revision'' then ''revision_requested''
                        else status p),
           adminComments := adminComments p @ [c],
           timeline := timeline p @ [e]\<rparr>"
    by blast
  with Review show ?thesis
    by (intro exI [of _ p'] exI [of _ e] exI [of _ "[p']"]) (simp add: review_answer_def)
next
  case (ClientFeedback r)
  with res ok have val: "feedbackValidation r"
    and found: "findOne_publicId (fb_publicId r) db = Some p"
    and ready: "status p \<in> set [''approved'', ''completed'']" by simp_all
  from submitFeedback_logged_accepted [OF val found ready, of now]
  obtain p' f e where "submitFeedback_logged now r db = (Inr p', save p' db, [p', p'])"
    and "p' = p\<lparr>clientFeedback := clientFeedback p @ [f],
           status := (if fb_status r = ''approved'' \<and> truthy (fb_satisfied r)
                        then ''delivered''
                        else if truthy (fb_reEditRequested r) then ''client_reedit''
                        else ''revision_requested''),
           timeline := timeline p @ [e]\<rparr>"
    by blast
  with ClientFeedback show ?thesis
    by (intro exI [of _ p'] exI [of _ e] exI [of _ "[p']"]) simp
qed

text \<open>
  An assignment calls \<open>save()\<close> twice: the first call stores the new status without a
  timeline entry, the second (inside \<open>addTimelineEntry\<close>) stores the entry.
\<close>

lemma assign_saves_status_before_entry:
  assumes "assignProjectValidation r"
    and "findById (ObjectId_of (as_projectId r)) db = Some p"
    and "User_findById (ObjectId_of (as_editorId r)) users = Some editor"
    and "user_role editor = ''editor''"
  shows "\<exists>q p' e. snd (snd (assignProjectToEditor_logged clock users r db)) = [q, p'] \<and>
     status q = (if isActualReassignment users r p then ''reassigned'' else ''assigned'') \<and>
     timeline q = timeline p \<and>
     status p' = status q \<and> timeline p' = timeline p @ [e]"
proof -
  from assignProjectToEditor_logged_success [OF assms, of clock]
  obtain q p' c e where "assignProjectToEditor_logged clock users r db
       = (Inr p', save p' db, [q, p'])"
    and "q = p\<lparr>assignedEditor := Some (ObjectId_of (as_editorId r)),
           assignedDate := Some (at_assignedDate clock),
           status := (if isActualReassignment users r p then ''reassigned'' else ''assigned''),
           dueDate := (if truthy_str (as_dueDate r) then as_dueDate r else dueDate p),
           adminNotes := (if truthy_str (as_notes r) then as_notes r else adminNotes p),
           editorDeadlineHours := num_or (as_deadlineHours r) 24,
           editorDeadline :=
             Some (at_editorDeadline clock + num_or (as_deadlineHours r) 24 * 60 * 60 * 1000),
           isEditorDeadlineExceeded := False,
           adminComments := (if truthy_str (as_comments r) then adminComments p @ [c]
                             else adminComments p)\<rparr>"
    and "p' = q\<lparr>timeline := timeline p @ [e]\<rparr>"
    by blast
  then show ?thesis
    by (intro exI [of _ q] exI [of _ p'] exI [of _ e]) simp
qed

text \<open>
  C4, as the claim states it, fails in its second half: the pair of source state
  \<open>approved\<close> and an editor status update is not in the table, yet the update is
  applied. The assigned editor moves an approved project back to \<open>assigned\<close>; the
  status changes and a timeline entry is added.
\<close>

theorem invalid_pair_counterexample:
  "resolves sample_users [sample_project\<lparr>status := ''approved''\<rparr>]
     (EditorStatusUpdate (sample_status_update_request\<lparr>su_status := ''assigned'',
        su_progress := None, su_notes := Some ''restart''\<rparr>))
     (sample_project\<lparr>status := ''approved''\<rparr>) \<and>
   \<not> spec_valid_pair (status (sample_project\<lparr>status := ''approved''\<rparr>))
     (EditorStatusUpdate (sample_status_update_request\<lparr>su_status := ''assigned'',
        su_progress := None, su_notes := Some ''restart''\<rparr>)) \<and>
   timeline (sample_project\<lparr>status := ''approved''\<rparr>) = [] \<and>
   apply_trigger 10 sample_users
     (EditorStatusUpdate (sample_status_update_request\<lparr>su_status := ''assigned'',
        su_progress := None, su_notes := Some ''restart''\<rparr>))
     [sample_project\<lparr>status := ''approved''\<rparr>]
     = (Inr (sample_project\<lparr>status := ''assigned'',
               timeline := [\<lparr>action = ''Status updated from approved to assigned'',
                             user = Some ''e1'', timestamp = 10,
                             entry_notes = ''restart''\<rparr>]\<rparr>),
        [sample_project\<lparr>status := ''assigned'',
               timeline := [\<lparr>action = ''Status updated from approved to assigned'',
                             user = Some ''e1'', timestamp = 10,
                             entry_notes = ''restart''\<rparr>]\<rparr>])"
  by (simp add: updateProjectStatus_def updateStatusValidation_def findOne_assigned_def
      addTimelineEntry_def save_def str_or_def Let_def
      sample_project_def sample_status_update_request_def)

text \<open>
  C4, amended. Take a trigger that passes the boundary and reaches a project (for an
  upload: whose file the object store took). Every pair that the table lists as valid
  passes the controllers' source-state guards. A trigger that passes the guards is
  applied: afterwards the collection holds, in place of the project, a document with the
  status that the handler writes for the trigger and with exactly one new timeline entry
  at the end of its timeline. For an editor status update, an upload, a review and a
  client feedback every \<open>save()\<close> of the request stores that same document, so the new
  status is never stored without its entry; for an assignment only the document stored
  last is described. A trigger that a guard rejects (a review when the status is not
  \<open>completed\<close>, a feedback when the status is neither \<open>approved\<close> nor \<open>completed\<close>)
  gets an error, nothing is saved and the collection is unchanged, so no timeline entry
  is added. Assignment, editor status update and upload have no source-state guard.
\<close>

theorem trigger_timeline:
  assumes res: "resolves users db t p"
  shows "(spec_valid_pair (status p) t \<longrightarrow> \<not> guard_rejects (status p) t) \<and>
         (\<not> guard_rejects (status p) t \<longrightarrow>
            (\<exists>p' e ws. snd (run_trigger now users t db) = (save p' db, ws @ [p']) \<and>
               status p' = written_status users t p \<and>
               timeline p' = timeline p @ [e] \<and>
               ((\<exists>r. t = Assign r) \<or> ws = [] \<or> ws = [p']))) \<and>
         (guard_rejects (status p) t \<longrightarrow>
            isl (fst (run_trigger now users t db)) \<and>
            snd (run_trigger now users t db) = (db, []))"
proof (intro conjI impI)
  assume "spec_valid_pair (status p) t"
  then show "\<not> guard_rejects (status p) t" by (cases t) simp_all
next
  assume "\<not> guard_rejects (status p) t"
  with res obtain p' e ws where
    run: "run_trigger now users t db =
            ((case t of
                Review r strictPopulate \<Rightarrow>
                  if strictPopulate then Inl (HttpError 500 ''Error reviewing project'')
                  else Inr p'
              | _ \<Rightarrow> Inr p'), save p' db, ws @ [p'])"
    and rest: "timeline p' = timeline p @ [e]" "status p' = written_status users t p"
      "(\<exists>r. t = Assign r) \<or> ws = [] \<or> ws = [p']"
    using trigger_accepted [of users db t p now] by blast
  from run have "snd (run_trigger now users t db) = (save p' db, ws @ [p'])" by simp
  with rest show "\<exists>p' e ws. snd (run_trigger now users t db) = (save p' db, ws @ [p']) \<and>
               status p' = written_status users t p \<and>
               timeline p' = timeline p @ [e] \<and>
               ((\<exists>r. t = Assign r) \<or> ws = [] \<or> ws = [p'])" by blast
next
  assume "guard_rejects (status p) t"
  with res have "\<exists>err. run_trigger now users t db = (Inl err, db, [])"
    by (rule trigger_rejected)
  then show "isl (fst (run_trigger now users t db))"
    and "snd (run_trigger now users t db) = (db, [])" by auto
qed

theorem trigger_timeline_witness:
  "resolves sample_users [sample_project] (Review sample_review_request True) sample_project \<and>
   spec_valid_pair (status sample_project) (Review sample_review_request True) \<and>
   \<not> guard_rejects (status sample_project) (Review sample_review_request True) \<and>
   (\<exists>p' e ws. snd (run_trigger 10 sample_users (Review sample_review_request True)
                  [sample_project]) = (save p' [sample_project], ws @ [p']) \<and>
           status p' = ''approved'' \<and>
           timeline p' = timeline sample_project @ [e] \<and>
           (ws = [] \<or> ws = [p'])) \<and>
   resolves sample_users [sample_project\<lparr>status := ''assigned''\<rparr>]
     (ClientFeedback sample_feedback_request) (sample_project\<lparr>status := ''assigned''\<rparr>) \<and>
   guard_rejects (status (sample_project\<lparr>status := ''assigned''\<rparr>))
     (ClientFeedback sample_feedback_request) \<and>
   isl (fst (run_trigger 10 sample_users (ClientFeedback sample_feedback_request)
               [sample_project\<lparr>status := ''assigned''\<rparr>])) \<and>
   snd (run_trigger 10 sample_users (ClientFeedback sample_feedback_request)
               [sample_project\<lparr>status := ''assigned''\<rparr>])
     = ([sample_project\<lparr>status := ''assigned''\<rparr>], [])"
proof -
  let ?pa = "sample_project\<lparr>status := ''assigned''\<rparr>"
  let ?rv = "Review sample_review_request True"
  have r1: "resolves sample_users [sample_project] ?rv sample_project"
    by (simp add: reviewProjectValidation_def findById_def ObjectId_of_def lower_hex_def
        sample_review_request_def sample_project_def)
  have v1: "spec_valid_pair (status sample_project) ?rv"
    by (simp add: sample_review_request_def sample_project_def)
  have r2: "resolves sample_users [?pa] (ClientFeedback sample_feedback_request) ?pa"
    by (simp add: feedbackValidation_def optional_isBoolean_def findOne_publicId_def
        sample_feedback_request_def sample_project_def)
  have g2: "guard_rejects (status ?pa) (ClientFeedback sample_feedback_request)"
    by simp
  have w1: "written_status sample_users ?rv sample_project = ''approved''"
    by (simp add: sample_review_request_def)
  note a = trigger_timeline [OF r1, of 10]
  note b = trigger_timeline [OF r2, of 10]
  from a v1 have g1: "\<not> guard_rejects (status sample_project) ?rv"
    by blast
  from a g1 have "\<exists>p' e ws. snd (run_trigger 10 sample_users ?rv [sample_project])
        = (save p' [sample_project], ws @ [p']) \<and>
      status p' = written_status sample_users ?rv sample_project \<and>
      timeline p' = timeline sample_project @ [e] \<and>
      ((\<exists>r. ?rv = Assign r) \<or> ws = [] \<or> ws = [p'])"
    by blast
  then have c1: "\<exists>p' e ws. snd (run_trigger 10 sample_users ?rv [sample_project])
        = (save p' [sample_project], ws @ [p']) \<and>
      status p' = ''approved'' \<and>
      timeline p' = timeline sample_project @ [e] \<and>
      (ws = [] \<or> ws = [p'])"
    unfolding w1 by simp
  from b g2 have c2: "isl (fst (run_trigger 10 sample_users
        (ClientFeedback sample_feedback_request) [?pa]))"
    and c3: "snd (run_trigger 10 sample_users (ClientFeedback sample_feedback_request) [?pa])
      = ([?pa], [])"
    by blast+
  show ?thesis by (intro conjI r1 v1 g1 c1 r2 g2 c2 c3)
qed

section \<open>Deadline tracking\<close>




end
